theory Spec2Isabelle
  imports Complex_Main "HOL-Library.Product_Lexorder"
begin

section \<open>pyDash backend: host metrics sampler (app.py)\<close>

text \<open>
  A shallow embedding of the three backend functions of \<^verbatim>\<open>app.py\<close>:
  \<^verbatim>\<open>get_system_stats\<close>, \<^verbatim>\<open>get_processes\<close> and \<^verbatim>\<open>terminate_process\<close>.

  Conventions of the model:
  \<^item> Python \<^verbatim>\<open>int\<close> is \<open>int\<close>. A finite Python \<^verbatim>\<open>float\<close> is a \<open>real\<close>: rounding to
    binary64 is not modelled. The readings of psutil and the clock are finite. A float
    that \<^verbatim>\<open>float()\<close> reads from the GPU tool's text can also be an infinity or nan:
    such values are of type \<open>pyfloat\<close>.
  \<^item> Python \<^verbatim>\<open>str\<close> is \<open>string\<close>, restricted to ASCII text.
  \<^item> \<^verbatim>\<open>None\<close> in a field is \<open>None\<close> of an option type.
  \<^item> A raised exception is a value of \<open>py_exn\<close>; a call that may raise returns a sum
    with the exception on the left.
  \<^item> The operating system (psutil, shutil, subprocess, time) is an argument of each
    function: what its calls return during one invocation.
  \<^item> The closure variable \<^verbatim>\<open>io_cache\<close> is passed in and returned.
\<close>

subsection \<open>Exceptions and external commands\<close>

datatype exn_class =
  ValueError | IndexError | TypeError | OSError | CalledProcessError
  | NoSuchProcess | AccessDenied | ZombieProcess

text \<open>An exception object: its class and the text of \<^verbatim>\<open>str(e)\<close>.\<close>

datatype py_exn = Exn exn_class string

fun exn_str :: "py_exn \<Rightarrow> string" where
  "exn_str (Exn c m) = m"

text \<open>
  \<^verbatim>\<open>_check_output_hidden(cmd)\<close> wraps \<^verbatim>\<open>subprocess.check_output\<close>: it returns the text the
  command printed, or raises (the binary cannot be started, the exit status is not
  zero, the output does not decode).
\<close>

datatype cmd_result = Raises py_exn | Returns string

record gpu_tool =
  shutil_which :: "string \<Rightarrow> string option"
  check_output_hidden :: "string list \<Rightarrow> cmd_result"

subsection \<open>Floats read from text\<close>

text \<open>What \<^verbatim>\<open>float(s)\<close> can return: a finite number, an infinity or nan.\<close>

datatype pyfloat = Fin real | PosInf | NegInf | NaN

text \<open>\<^verbatim>\<open>-x\<close>.\<close>

fun pf_neg :: "pyfloat \<Rightarrow> pyfloat" where
  "pf_neg (Fin r) = Fin (- r)"
| "pf_neg PosInf = NegInf"
| "pf_neg NegInf = PosInf"
| "pf_neg NaN = NaN"

text \<open>
  A number of magnitude \<open>2 ^ 1024 - 2 ^ 970\<close> or more is beyond the largest binary64
  number and becomes an infinity, when a literal is read and when a product is formed.
  Below that the value is the exact number: rounding to the nearest binary64 number is
  not modelled.
\<close>

definition overflow :: "real \<Rightarrow> pyfloat" where
  "overflow v =
     (if 2 ^ 1024 - 2 ^ 970 \<le> v then PosInf
      else if v \<le> - (2 ^ 1024 - 2 ^ 970) then NegInf
      else Fin v)"

text \<open>\<^verbatim>\<open>x * k\<close> for an integer \<^verbatim>\<open>k\<close>: an infinity times zero is nan.\<close>

fun times_int :: "pyfloat \<Rightarrow> int \<Rightarrow> pyfloat" where
  "times_int (Fin r) k = overflow (r * real_of_int k)"
| "times_int PosInf k = (if 0 < k then PosInf else if k < 0 then NegInf else NaN)"
| "times_int NegInf k = (if 0 < k then NegInf else if k < 0 then PosInf else NaN)"
| "times_int NaN k = NaN"

text \<open>\<^verbatim>\<open>a <= b\<close>: false whenever one side is nan.\<close>

fun pf_le :: "pyfloat \<Rightarrow> pyfloat \<Rightarrow> bool" where
  "pf_le NaN b = False"
| "pf_le a NaN = False"
| "pf_le NegInf b = True"
| "pf_le a PosInf = True"
| "pf_le (Fin a) (Fin b) = (a \<le> b)"
| "pf_le a b = False"

text \<open>
  The floats other than nan are linearly ordered; \<open>rank\<close> places them in a linear order
  (pairs compared lexicographically), for the sort.
\<close>

fun rank :: "pyfloat \<Rightarrow> int \<times> real" where
  "rank NegInf = (- 1, 0)"
| "rank (Fin r) = (0, r)"
| "rank PosInf = (1, 0)"
| "rank NaN = (2, 0)"

subsection \<open>Process data\<close>

text \<open>The named tuple psutil returns for \<^verbatim>\<open>io_counters\<close>; the two fields the code reads.\<close>

record pio =
  read_bytes :: int
  write_bytes :: int

text \<open>
  \<^verbatim>\<open>proc.info\<close> for the attributes \<^verbatim>\<open>['pid', 'name', 'cpu_percent', 'memory_percent',
  'io_counters']\<close>. psutil stores \<^verbatim>\<open>None\<close> for an attribute it was denied.
\<close>

record proc_info =
  pid :: int
  name :: "string option"
  cpu_percent :: "real option"
  memory_percent :: "real option"
  io_counters :: "pio option"

text \<open>The dictionary appended to \<^verbatim>\<open>processes\<close>: \<^verbatim>\<open>pinfo\<close> with the two keys the loop adds.\<close>

record process_sample = proc_info +
  disk_io :: real
  gpu_memory :: pyfloat

text \<open>An entry of \<^verbatim>\<open>io_cache\<close>: \<^verbatim>\<open>{'bytes': total_bytes, 'time': timestamp}\<close>.\<close>

record io_entry =
  bytes :: int
  time :: real

type_synonym io_cache = "int \<rightharpoonup> io_entry"

type_synonym gpu_map = "int \<rightharpoonup> pyfloat"

subsection \<open>The I/O rate cache (lines 171-184)\<close>

text \<open>
  \<^verbatim>\<open>
  if pinfo['pid'] in io_cache:
      prev = io_cache[pinfo['pid']]
      time_diff = current_time - prev['time']
      if time_diff > 0:
          io_rate = (total_io - prev['bytes']) / time_diff
  io_cache[pinfo['pid']] = {'bytes': total_io, 'time': current_time}
  \<close>
  with \<^verbatim>\<open>io_rate = 0\<close> before. The result is the rate and the updated cache.
\<close>

definition calc_io_rate :: "io_cache \<Rightarrow> int \<Rightarrow> int \<Rightarrow> real \<Rightarrow> real \<times> io_cache" where
  "calc_io_rate io_cache k total_io current_time =
     (let io_rate =
        (case io_cache k of
           None \<Rightarrow> 0
         | Some prev \<Rightarrow>
             (let time_diff = current_time - time prev
              in if time_diff > 0 then real_of_int (total_io - bytes prev) / time_diff else 0))
      in (io_rate, io_cache(k \<mapsto> \<lparr>bytes = total_io, time = current_time\<rparr>)))"

subsection \<open>The body of the enumeration loop (lines 158-193)\<close>

definition is_idle :: "proc_info \<Rightarrow> bool" where
  "is_idle pinfo \<longleftrightarrow> name pinfo = Some ''System Idle Process'' \<or> name pinfo = Some ''Idle''"

text \<open>
  One iteration. \<open>None\<close> is \<^verbatim>\<open>continue\<close>: the idle entry is dropped before anything
  else happens. Otherwise the CPU reading is divided by the core count, the I/O rate is
  computed when \<^verbatim>\<open>io_counters\<close> is truthy (a named tuple is truthy, \<^verbatim>\<open>None\<close> is not), the
  GPU memory is \<^verbatim>\<open>gpu_map.get(pid, 0)\<close>, and the entry is appended.
  The body works on the prefetched \<^verbatim>\<open>proc.info\<close> only, so none of the psutil exceptions
  of the \<^verbatim>\<open>except\<close> clause is raised in it.
\<close>

definition sample_proc ::
  "nat \<Rightarrow> real \<Rightarrow> gpu_map \<Rightarrow> io_cache \<Rightarrow> proc_info \<Rightarrow> process_sample option \<times> io_cache" where
  "sample_proc cpu_count current_time gpu_map io_cache pinfo =
     (if is_idle pinfo then (None, io_cache)
      else
        (let cpu = (case cpu_percent pinfo of None \<Rightarrow> None | Some c \<Rightarrow> Some (c / real cpu_count));
             (io_rate, io_cache') =
               (case io_counters pinfo of
                  None \<Rightarrow> (0, io_cache)
                | Some c \<Rightarrow> calc_io_rate io_cache (pid pinfo) (read_bytes c + write_bytes c) current_time)
         in (Some \<lparr>pid = pid pinfo, name = name pinfo, cpu_percent = cpu,
                   memory_percent = memory_percent pinfo, io_counters = io_counters pinfo,
                   disk_io = io_rate,
                   gpu_memory = (case gpu_map (pid pinfo) of None \<Rightarrow> Fin 0 | Some m \<Rightarrow> m)\<rparr>,
             io_cache')))"

text \<open>The loop: the entries appended to \<^verbatim>\<open>processes\<close>, in order, and the cache after it.\<close>

fun process_loop ::
  "nat \<Rightarrow> real \<Rightarrow> gpu_map \<Rightarrow> io_cache \<Rightarrow> proc_info list \<Rightarrow> process_sample list \<times> io_cache" where
  "process_loop cpu_count current_time gpu_map io_cache [] = ([], io_cache)"
| "process_loop cpu_count current_time gpu_map io_cache (pinfo # rest) =
     (case sample_proc cpu_count current_time gpu_map io_cache pinfo of
        (r, io_cache') \<Rightarrow>
          (case process_loop cpu_count current_time gpu_map io_cache' rest of
             (processes, io_cache'') \<Rightarrow>
               ((case r of None \<Rightarrow> processes | Some s \<Rightarrow> s # processes), io_cache'')))"

subsection \<open>Text: \<^verbatim>\<open>str.strip\<close>, \<^verbatim>\<open>str.split\<close>, \<^verbatim>\<open>int\<close>, \<^verbatim>\<open>float\<close>, \<^verbatim>\<open>str\<close>\<close>

text \<open>The ASCII characters for which \<^verbatim>\<open>str.isspace\<close> holds: 9 to 13 and 28 to 32.\<close>

definition is_space :: "char \<Rightarrow> bool" where
  "is_space c \<longleftrightarrow>
     c \<in> set [CHR 0x09, CHR 0x0A, CHR 0x0B, CHR 0x0C, CHR 0x0D,
              CHR 0x1C, CHR 0x1D, CHR 0x1E, CHR 0x1F, CHR 0x20]"

definition py_strip :: "string \<Rightarrow> string" where
  "py_strip s = rev (dropWhile is_space (rev (dropWhile is_space s)))"

text \<open>\<^verbatim>\<open>s.split(sep)\<close> for a separator of one character: never the empty list.\<close>

fun split_on :: "char \<Rightarrow> string \<Rightarrow> string list" where
  "split_on sep [] = [[]]"
| "split_on sep (c # cs) =
     (if c = sep then [] # split_on sep cs
      else (case split_on sep cs of
              [] \<Rightarrow> [[c]]
            | w # ws \<Rightarrow> (c # w) # ws))"

text \<open>
  The whitespace \<^verbatim>\<open>int\<close> and \<^verbatim>\<open>float\<close> skip around an ASCII literal: 9 to 13 and 32.
\<close>

definition is_cspace :: "char \<Rightarrow> bool" where
  "is_cspace c \<longleftrightarrow> c \<in> set [CHR 0x09, CHR 0x0A, CHR 0x0B, CHR 0x0C, CHR 0x0D, CHR 0x20]"

definition c_strip :: "string \<Rightarrow> string" where
  "c_strip s = rev (dropWhile is_cspace (rev (dropWhile is_cspace s)))"

definition digit_val :: "char \<Rightarrow> nat option" where
  "digit_val c =
     map_of [(CHR ''0'', 0), (CHR ''1'', 1), (CHR ''2'', 2), (CHR ''3'', 3), (CHR ''4'', 4),
             (CHR ''5'', 5), (CHR ''6'', 6), (CHR ''7'', 7), (CHR ''8'', 8), (CHR ''9'', 9)] c"

text \<open>
  Python's \<^verbatim>\<open>digitpart\<close>: decimal digits, with single underscores allowed between two
  digits. The result is the list of digit values; \<open>None\<close> when the text is not of
  that form.
\<close>

fun digits_us :: "string \<Rightarrow> nat list option" where
  "digits_us [] = None"
| "digits_us [c] = (case digit_val c of None \<Rightarrow> None | Some v \<Rightarrow> Some [v])"
| "digits_us (c # d # cs) =
     (case digit_val c of
        None \<Rightarrow> None
      | Some v \<Rightarrow>
          (case (if d = CHR ''_'' then digits_us cs else digits_us (d # cs)) of
             None \<Rightarrow> None
           | Some vs \<Rightarrow> Some (v # vs)))"

definition dec_val :: "nat list \<Rightarrow> nat" where
  "dec_val ds = foldl (\<lambda>a d. 10 * a + d) 0 ds"

text \<open>An optional sign and a \<^verbatim>\<open>digitpart\<close>.\<close>

definition signed_digits :: "string \<Rightarrow> int option" where
  "signed_digits s =
     (case s of
        [] \<Rightarrow> None
      | c # r \<Rightarrow>
          if c = CHR ''-'' then map_option (\<lambda>ds. - int (dec_val ds)) (digits_us r)
          else if c = CHR ''+'' then map_option (\<lambda>ds. int (dec_val ds)) (digits_us r)
          else map_option (\<lambda>ds. int (dec_val ds)) (digits_us s))"

text \<open>\<^verbatim>\<open>int(s)\<close> for a string, base 10. \<open>None\<close> is \<^verbatim>\<open>ValueError\<close>.\<close>

definition py_int :: "string \<Rightarrow> int option" where
  "py_int s = signed_digits (c_strip s)"

text \<open>
  Python's \<^verbatim>\<open>number\<close> of the grammar of \<^verbatim>\<open>float\<close>: \<^verbatim>\<open>[digitpart] "." digitpart\<close> or
  \<^verbatim>\<open>digitpart ["."]\<close>.
\<close>

definition point_number :: "string \<Rightarrow> real option" where
  "point_number s =
     (case split_on CHR ''.'' s of
        [i] \<Rightarrow> map_option (\<lambda>ds. real (dec_val ds)) (digits_us i)
      | [i, f] \<Rightarrow>
          (if f = [] then map_option (\<lambda>ds. real (dec_val ds)) (digits_us i)
           else
             (case digits_us f of
                None \<Rightarrow> None
              | Some fd \<Rightarrow>
                  (if i = [] then Some (real (dec_val fd) / 10 ^ length fd)
                   else map_option (\<lambda>ds. real (dec_val ds) + real (dec_val fd) / 10 ^ length fd)
                          (digits_us i))))
      | _ \<Rightarrow> None)"

definition not_e :: "char \<Rightarrow> bool" where
  "not_e c \<longleftrightarrow> c \<noteq> CHR ''e'' \<and> c \<noteq> CHR ''E''"

text \<open>\<^verbatim>\<open>floatnumber\<close>: a \<^verbatim>\<open>number\<close> and an optional exponent \<^verbatim>\<open>("e" | "E") [sign] digitpart\<close>.\<close>

definition float_number :: "string \<Rightarrow> real option" where
  "float_number s =
     (case point_number (takeWhile not_e s) of
        None \<Rightarrow> None
      | Some v \<Rightarrow>
          (case dropWhile not_e s of
             [] \<Rightarrow> Some v
           | e # ex \<Rightarrow>
               (case signed_digits ex of
                  None \<Rightarrow> None
                | Some k \<Rightarrow> Some (if 0 \<le> k then v * 10 ^ nat k else v / 10 ^ nat (- k)))))"

text \<open>The names \<^verbatim>\<open>inf\<close>, \<^verbatim>\<open>infinity\<close> and \<^verbatim>\<open>nan\<close> are read without regard to case.\<close>

definition ascii_lower :: "char \<Rightarrow> char" where
  "ascii_lower c =
     (case map_of (zip ''ABCDEFGHIJKLMNOPQRSTUVWXYZ'' ''abcdefghijklmnopqrstuvwxyz'') c of
        None \<Rightarrow> c
      | Some l \<Rightarrow> l)"

text \<open>
  \<^verbatim>\<open>absfloatvalue\<close>: a \<^verbatim>\<open>floatnumber\<close>, an infinity or nan. A \<^verbatim>\<open>floatnumber\<close> that is too
  large reads as an infinity.
\<close>

definition abs_float_value :: "string \<Rightarrow> pyfloat option" where
  "abs_float_value s =
     (if map ascii_lower s = ''inf'' \<or> map ascii_lower s = ''infinity'' then Some PosInf
      else if map ascii_lower s = ''nan'' then Some NaN
      else (case float_number s of None \<Rightarrow> None | Some v \<Rightarrow> Some (overflow v)))"

text \<open>
  \<^verbatim>\<open>float(s)\<close> for a string: surrounding whitespace, an optional sign and an
  \<^verbatim>\<open>absfloatvalue\<close>. \<open>None\<close> is \<^verbatim>\<open>ValueError\<close>.
\<close>

definition py_float :: "string \<Rightarrow> pyfloat option" where
  "py_float s =
     (case c_strip s of
        [] \<Rightarrow> None
      | c # r \<Rightarrow>
          if c = CHR ''-'' then map_option pf_neg (abs_float_value r)
          else if c = CHR ''+'' then abs_float_value r
          else abs_float_value (c # r))"

text \<open>\<^verbatim>\<open>str(n)\<close> for an integer, as the f-string of \<^verbatim>\<open>terminate_process\<close> formats the pid.\<close>

function str_nat :: "nat \<Rightarrow> string" where
  "str_nat n = (if n < 10 then [''0123456789'' ! n] else str_nat (n div 10) @ [''0123456789'' ! (n mod 10)])"
  by pat_completeness auto
termination
  by (relation "measure id") auto

definition str_int :: "int \<Rightarrow> string" where
  "str_int i = (if i < 0 then CHR ''-'' # str_nat (nat (- i)) else str_nat (nat i))"

subsection \<open>The GPU probes\<close>

text \<open>
  The per-process map of \<^verbatim>\<open>get_processes\<close> (lines 137-156). One line of the output:
  \<^verbatim>\<open>
  if line:
      parts = line.split(',')
      if len(parts) == 2:
          try:
              pid = int(parts[0]); mem_mb = float(parts[1]); gpu_map[pid] = mem_mb
          except ValueError: pass
  \<close>
\<close>

definition gpu_map_line :: "gpu_map \<Rightarrow> string \<Rightarrow> gpu_map" where
  "gpu_map_line gm line =
     (if line \<noteq> [] then
        (let parts = split_on CHR '','' line
         in if length parts = 2 then
              (case py_int (parts ! 0) of
                 None \<Rightarrow> gm
               | Some k \<Rightarrow>
                   (case py_float (parts ! 1) of
                      None \<Rightarrow> gm
                    | Some mem_mb \<Rightarrow> gm(k \<mapsto> mem_mb)))
            else gm)
      else gm)"

text \<open>
  The entry one line of the per-process output contributes to \<^verbatim>\<open>gpu_map\<close>: the same tests
  as \<open>gpu_map_line\<close>, giving the pair instead of the updated map. \<open>None\<close> for a line
  that is skipped.
\<close>

definition gpu_line_entry :: "string \<Rightarrow> (int \<times> pyfloat) option" where
  "gpu_line_entry line =
     (if line \<noteq> [] \<and> length (split_on CHR '','' line) = 2 then
        (case py_int (split_on CHR '','' line ! 0) of
           None \<Rightarrow> None
         | Some k \<Rightarrow>
             (case py_float (split_on CHR '','' line ! 1) of
                None \<Rightarrow> None
              | Some mem_mb \<Rightarrow> Some (k, mem_mb)))
      else None)"

definition compute_apps_cmd :: "string list" where
  "compute_apps_cmd =
     [''nvidia-smi'', ''--query-compute-apps=pid,used_memory'', ''--format=csv,noheader,nounits'']"

text \<open>
  The map starts empty. The only statement of the outer \<^verbatim>\<open>try\<close> that raises is the
  command itself, before any line is read; \<^verbatim>\<open>except Exception: pass\<close> then leaves the map
  empty.
\<close>

definition gpu_map :: "gpu_tool \<Rightarrow> gpu_map" where
  "gpu_map tool =
     (case shutil_which tool ''nvidia-smi'' of
        None \<Rightarrow> Map.empty
      | Some path \<Rightarrow>
          (case check_output_hidden tool compute_apps_cmd of
             Raises e \<Rightarrow> Map.empty
           | Returns output \<Rightarrow> foldl gpu_map_line Map.empty (split_on CHR 0x0A (py_strip output))))"

text \<open>The \<^verbatim>\<open>gpu\<close> entry of \<^verbatim>\<open>get_system_stats\<close>; the nested \<^verbatim>\<open>memory\<close> dictionary is flattened.\<close>

record gpu_stats =
  gpu_percent :: pyfloat
  gpu_name :: string
  gpu_mem_total :: pyfloat
  gpu_mem_used :: pyfloat

definition gpu_default :: gpu_stats where
  "gpu_default =
     \<lparr>gpu_percent = Fin 0, gpu_name = ''N/A'', gpu_mem_total = Fin 0, gpu_mem_used = Fin 0\<rparr>"

definition gpu_name_cmd :: "string list" where
  "gpu_name_cmd = [''nvidia-smi'', ''--query-gpu=name'', ''--format=csv,noheader'']"

definition gpu_query_cmd :: "string list" where
  "gpu_query_cmd =
     [''nvidia-smi'', ''--query-gpu=utilization.gpu,memory.total,memory.used'',
      ''--format=csv,noheader,nounits'']"

text \<open>\<^verbatim>\<open>[float(x) for x in xs]\<close>: the first \<^verbatim>\<open>ValueError\<close> ends it.\<close>

fun floats :: "string list \<Rightarrow> pyfloat list option" where
  "floats [] = Some []"
| "floats (x # xs) =
     (case py_float x of
        None \<Rightarrow> None
      | Some v \<Rightarrow> (case floats xs of None \<Rightarrow> None | Some vs \<Rightarrow> Some (v # vs)))"

text \<open>\<^verbatim>\<open>text.strip().split('\n')[0]\<close>.\<close>

definition first_line :: "string \<Rightarrow> py_exn + string" where
  "first_line s =
     (case split_on CHR 0x0A (py_strip s) of
        [] \<Rightarrow> Inl (Exn IndexError ''list index out of range'')
      | l # ls \<Rightarrow> Inr l)"

text \<open>
  The body of the \<^verbatim>\<open>try\<close> of lines 82-104: the new value of \<^verbatim>\<open>gpu_stats\<close>, or the
  exception that leaves the body.
\<close>

definition gpu_stats_try :: "gpu_tool \<Rightarrow> py_exn + gpu_stats" where
  "gpu_stats_try tool =
     (case check_output_hidden tool gpu_name_cmd of
        Raises e \<Rightarrow> Inl e
      | Returns name_output \<Rightarrow>
          (case first_line name_output of
             Inl e \<Rightarrow> Inl e
           | Inr name' \<Rightarrow>
               (case check_output_hidden tool gpu_query_cmd of
                  Raises e \<Rightarrow> Inl e
                | Returns stats_output \<Rightarrow>
                    (case first_line stats_output of
                       Inl e \<Rightarrow> Inl e
                     | Inr line \<Rightarrow>
                         (case floats (split_on CHR '','' line) of
                            None \<Rightarrow> Inl (Exn ValueError ''could not convert string to float'')
                          | Some vals \<Rightarrow>
                              if length vals < 3 then Inl (Exn IndexError ''list index out of range'')
                              else Inr \<lparr>gpu_percent = vals ! 0, gpu_name = name',
                                        gpu_mem_total = times_int (times_int (vals ! 1) 1024) 1024,
                                        gpu_mem_used = times_int (times_int (vals ! 2) 1024) 1024\<rparr>)))))"

text \<open>Lines 80-106: the default, replaced when the tool is found and the body completes.\<close>

definition gpu_stats_of :: "gpu_tool \<Rightarrow> gpu_stats" where
  "gpu_stats_of tool =
     (case shutil_which tool ''nvidia-smi'' of
        None \<Rightarrow> gpu_default
      | Some path \<Rightarrow> (case gpu_stats_try tool of Inl e \<Rightarrow> gpu_default | Inr g \<Rightarrow> g))"

subsection \<open>\<^verbatim>\<open>get_system_stats\<close>\<close>

record mem_stats =
  mem_total :: int
  mem_available :: int
  mem_percent :: real
  mem_used :: int

record disk_stats =
  disk_total :: int
  disk_used :: int
  disk_free :: int
  disk_percent :: real

text \<open>What psutil and the GPU tool answer during one call; a psutil call may raise.\<close>

record stats_env =
  psutil_cpu_percent :: "py_exn + real"
  psutil_virtual_memory :: "py_exn + mem_stats"
  psutil_disk_usage :: "string \<Rightarrow> py_exn + disk_stats"
  stats_tool :: gpu_tool

record system_stats =
  cpu :: real
  memory :: mem_stats
  disk :: disk_stats
  gpu :: gpu_stats

text \<open>The three psutil calls are outside any \<^verbatim>\<open>try\<close>: what they raise leaves the function.\<close>

definition get_system_stats :: "stats_env \<Rightarrow> py_exn + system_stats" where
  "get_system_stats env =
     (case psutil_cpu_percent env of
        Inl e \<Rightarrow> Inl e
      | Inr cpu_percent' \<Rightarrow>
          (case psutil_virtual_memory env of
             Inl e \<Rightarrow> Inl e
           | Inr memory' \<Rightarrow>
               (case psutil_disk_usage env ''/'' of
                  Inl e \<Rightarrow> Inl e
                | Inr disk' \<Rightarrow>
                    Inr \<lparr>cpu = cpu_percent', memory = memory', disk = disk',
                         gpu = gpu_stats_of (stats_tool env)\<rparr>)))"

subsection \<open>\<^verbatim>\<open>get_processes\<close>\<close>

text \<open>
  What the operating system answers during one call of \<^verbatim>\<open>get_processes\<close>. The last field
  is the part of \<^verbatim>\<open>list.sort\<close> the language leaves open, see \<open>sort_reverse\<close> below.
\<close>

record sampler_env =
  psutil_cpu_count :: "nat option"
  time_time :: real
  nvidia_smi :: gpu_tool
  psutil_process_iter :: "proc_info list"
  list_sort_nan :: "pyfloat list \<Rightarrow> nat list"

text \<open>The values of \<^verbatim>\<open>key_map\<close> name the four fields a call can sort on.\<close>

datatype sort_field = Cpu_percent | Memory_percent | Disk_io | Gpu_memory

definition key_map :: "string \<rightharpoonup> sort_field" where
  "key_map =
     [''cpu'' \<mapsto> Cpu_percent, ''memory'' \<mapsto> Memory_percent, ''disk'' \<mapsto> Disk_io,
      ''gpu'' \<mapsto> Gpu_memory]"

text \<open>\<^verbatim>\<open>sort_key = key_map.get(sort_by, 'cpu_percent')\<close>.\<close>

definition sort_key_for :: "string \<Rightarrow> sort_field" where
  "sort_key_for sort_by = (case key_map sort_by of None \<Rightarrow> Cpu_percent | Some f \<Rightarrow> f)"

text \<open>
  \<^verbatim>\<open>p.get(sort_key) or 0\<close>: \<^verbatim>\<open>None\<close> and zero both give 0; nan and the infinities are
  truthy and stay.
\<close>

definition get_or_0 :: "sort_field \<Rightarrow> process_sample \<Rightarrow> pyfloat" where
  "get_or_0 sort_key' p =
     (case sort_key' of
        Cpu_percent \<Rightarrow> Fin (case cpu_percent p of None \<Rightarrow> 0 | Some v \<Rightarrow> v)
      | Memory_percent \<Rightarrow> Fin (case memory_percent p of None \<Rightarrow> 0 | Some v \<Rightarrow> v)
      | Disk_io \<Rightarrow> Fin (disk_io p)
      | Gpu_memory \<Rightarrow> gpu_memory p)"

text \<open>
  \<^verbatim>\<open>xs.sort(key=f, reverse=True)\<close>. \<^verbatim>\<open>list.sort\<close> compares the keys with \<^verbatim>\<open><\<close> only.

  When no key is nan the keys are linearly ordered and the result is determined: Python
  reverses the list, sorts it stably in ascending order of the key and reverses the
  result, so that entries with equal keys keep their order.

  When a key is nan, every comparison with it is false and the order of the result
  depends on which comparisons \<^verbatim>\<open>list.sort\<close> happens to make; the language fixes only that
  the result is a permutation of the list. That order is an answer of the environment:
  \<open>sort_nan keys\<close> gives, for the keys in list order, the positions of the entries in
  the order the sort leaves them in. An answer that is not a permutation of the positions
  is ignored.
\<close>

definition sort_reverse :: "(pyfloat list \<Rightarrow> nat list) \<Rightarrow> ('a \<Rightarrow> pyfloat) \<Rightarrow> 'a list \<Rightarrow> 'a list" where
  "sort_reverse sort_nan f xs =
     (if NaN \<in> set (map f xs) then
        (let js = sort_nan (map f xs)
         in if sort js = [0..<length xs] then map (\<lambda>j. xs ! j) js else xs)
      else rev (sort_key (\<lambda>x. rank (f x)) (rev xs)))"

text \<open>
  Lines 133-193: \<^verbatim>\<open>cpu_count = psutil.cpu_count() or 1\<close>, the clock, the GPU map and the
  loop. The result is \<^verbatim>\<open>processes\<close> and \<^verbatim>\<open>io_cache\<close> as they stand at line 194.
  The enumeration itself is taken to succeed.
\<close>

definition enumerate_processes :: "io_cache \<Rightarrow> sampler_env \<Rightarrow> process_sample list \<times> io_cache" where
  "enumerate_processes io_cache env =
     (let cpu_count = (case psutil_cpu_count env of None \<Rightarrow> 1 | Some n \<Rightarrow> if n = 0 then 1 else n);
          current_time = time_time env;
          gm = gpu_map (nvidia_smi env)
      in process_loop cpu_count current_time gm io_cache (psutil_process_iter env))"

text \<open>
  The whole pass: the loop, the clean-up of the cache (lines 195-197), the sort and the
  cut to 50 entries. The result is the returned list and the new value of \<^verbatim>\<open>io_cache\<close>.
\<close>

definition get_processes ::
  "io_cache \<Rightarrow> sampler_env \<Rightarrow> string \<Rightarrow> process_sample list \<times> io_cache" where
  "get_processes io_cache env sort_by =
     (let (processes, io_cache1) = enumerate_processes io_cache env;
          current_pids = set (map pid processes);
          io_cache2 = io_cache1 |` current_pids;
          sort_key' = sort_key_for sort_by
      in (take 50 (sort_reverse (list_sort_nan env) (get_or_0 sort_key') processes), io_cache2))"

subsection \<open>\<^verbatim>\<open>terminate_process\<close>\<close>

record term_result =
  success :: bool
  message :: string

text \<open>
  The body of the \<^verbatim>\<open>try\<close>: \<^verbatim>\<open>psutil.Process(pid)\<close> and \<^verbatim>\<open>p.terminate()\<close> are given by the
  operating system; either may raise.
\<close>

definition terminate_try ::
  "(int \<Rightarrow> py_exn + 'h) \<Rightarrow> ('h \<Rightarrow> py_exn + unit) \<Rightarrow> int \<Rightarrow> py_exn + term_result" where
  "terminate_try psutil_Process terminate k =
     (case psutil_Process k of
        Inl e \<Rightarrow> Inl e
      | Inr p \<Rightarrow>
          (case terminate p of
             Inl e \<Rightarrow> Inl e
           | Inr u \<Rightarrow>
               Inr \<lparr>success = True, message = ''Process '' @ str_int k @ '' terminated.''\<rparr>))"

text \<open>
  \<^verbatim>\<open>except Exception as e\<close> turns every exception into a result. The function returns a
  sum as the other entry points do, so that what reaches the caller can be stated.
\<close>

definition terminate_process ::
  "(int \<Rightarrow> py_exn + 'h) \<Rightarrow> ('h \<Rightarrow> py_exn + unit) \<Rightarrow> int \<Rightarrow> py_exn + term_result" where
  "terminate_process psutil_Process terminate k =
     (case terminate_try psutil_Process terminate k of
        Inl e \<Rightarrow> Inr \<lparr>success = False, message = exn_str e\<rparr>
      | Inr r \<Rightarrow> Inr r)"

subsection \<open>Example inputs\<close>

text \<open>
  An answer for \<open>list_sort_nan\<close>: the list order. It is what CPython's sort answers for the
  keys 0, nan, 45 of \<open>env_nan\<close> below, the only pass of these examples with a nan key.
\<close>

definition keep_order :: "pyfloat list \<Rightarrow> nat list" where
  "keep_order ks = [0..<length ks]"

text \<open>A host without the GPU tool, and a pass over three processes with a warm cache.\<close>

definition no_tool :: gpu_tool where
  "no_tool = \<lparr>shutil_which = (\<lambda>prog. None),
              check_output_hidden = (\<lambda>cmd. Raises (Exn OSError ''No such file or directory''))\<rparr>"

definition proc_a :: proc_info where
  "proc_a = \<lparr>pid = 100, name = Some ''python'', cpu_percent = Some 40, memory_percent = Some 2,
             io_counters = Some \<lparr>read_bytes = 1500, write_bytes = 500\<rparr>\<rparr>"

definition proc_idle :: proc_info where
  "proc_idle = \<lparr>pid = 0, name = Some ''System Idle Process'', cpu_percent = Some 380,
                memory_percent = Some 0, io_counters = None\<rparr>"

definition proc_b :: proc_info where
  "proc_b = \<lparr>pid = 7, name = Some ''sshd'', cpu_percent = None, memory_percent = Some 1,
             io_counters = None\<rparr>"

definition env_a :: sampler_env where
  "env_a = \<lparr>psutil_cpu_count = Some 4, time_time = 1, nvidia_smi = no_tool,
            psutil_process_iter = [proc_idle, proc_b, proc_a],
            list_sort_nan = keep_order\<rparr>"

definition cache_a :: io_cache where
  "cache_a = [100 \<mapsto> \<lparr>bytes = 1000, time = 0\<rparr>, 7 \<mapsto> \<lparr>bytes = 30, time = 0\<rparr>]"

text \<open>A later pass, at time 3, in which the counters of pid 7 are read.\<close>

definition proc_c :: proc_info where
  "proc_c = \<lparr>pid = 7, name = Some ''sshd'', cpu_percent = Some 8, memory_percent = Some 1,
             io_counters = Some \<lparr>read_bytes = 40, write_bytes = 20\<rparr>\<rparr>"

definition env_b :: sampler_env where
  "env_b = \<lparr>psutil_cpu_count = Some 4, time_time = 3, nvidia_smi = no_tool,
            psutil_process_iter = [proc_c],
            list_sort_nan = keep_order\<rparr>"

text \<open>A pass over 51 live processes, pids 0 to 50, all with counters.\<close>

definition worker :: "nat \<Rightarrow> proc_info" where
  "worker i = \<lparr>pid = int i, name = Some ''worker'', cpu_percent = None, memory_percent = None,
               io_counters = Some \<lparr>read_bytes = 0, write_bytes = 0\<rparr>\<rparr>"

definition env_51 :: sampler_env where
  "env_51 = \<lparr>psutil_cpu_count = Some 1, time_time = 0, nvidia_smi = no_tool,
             psutil_process_iter = map worker [0..<51],
             list_sort_nan = keep_order\<rparr>"

text \<open>A cache that knows pid 7 only.\<close>

definition cache_cold :: io_cache where
  "cache_cold = [7 \<mapsto> \<lparr>bytes = 30, time = 0\<rparr>]"

text \<open>A host with the GPU tool: one compute process, pid 100, using 45 MiB.\<close>

definition smi_found :: "string \<Rightarrow> string option" where
  "smi_found prog = (if prog = ''nvidia-smi'' then Some ''/usr/bin/nvidia-smi'' else None)"

definition tool_45 :: gpu_tool where
  "tool_45 = \<lparr>shutil_which = smi_found,
              check_output_hidden = (\<lambda>cmd.
                if cmd = compute_apps_cmd then Returns (''100, 45'' @ [CHR 0x0A])
                else Raises (Exn CalledProcessError ''returned non-zero exit status 6''))\<rparr>"

definition env_gpu :: sampler_env where
  "env_gpu = \<lparr>psutil_cpu_count = Some 4, time_time = 1, nvidia_smi = tool_45,
              psutil_process_iter = [proc_b, proc_a],
              list_sort_nan = keep_order\<rparr>"

text \<open>
  A tool whose per-process output has one good line, one line with a field that is not
  a number and one line with a single column, and whose global output has four columns.
\<close>

definition tool_mixed :: gpu_tool where
  "tool_mixed = \<lparr>shutil_which = smi_found,
                 check_output_hidden = (\<lambda>cmd.
                   if cmd = compute_apps_cmd
                   then Returns (''100, 45'' @ [CHR 0x0A] @ ''200, [N/A]'' @ [CHR 0x0A] @ ''300''
                                 @ [CHR 0x0A])
                   else if cmd = gpu_name_cmd then Returns (''Tesla T4'' @ [CHR 0x0A])
                   else if cmd = gpu_query_cmd then Returns (''14, 4096, 500, 7'' @ [CHR 0x0A])
                   else Raises (Exn CalledProcessError ''returned non-zero exit status 2''))\<rparr>"

text \<open>A tool that is found and whose every invocation fails.\<close>

definition tool_failing :: gpu_tool where
  "tool_failing = \<lparr>shutil_which = smi_found,
                   check_output_hidden = (\<lambda>cmd.
                     Raises (Exn CalledProcessError ''returned non-zero exit status 9''))\<rparr>"

text \<open>A tool whose output is an error text instead of the table.\<close>

definition tool_garbled :: gpu_tool where
  "tool_garbled = \<lparr>shutil_which = smi_found,
                   check_output_hidden = (\<lambda>cmd.
                     if cmd = gpu_name_cmd then Returns (''Tesla T4'' @ [CHR 0x0A])
                     else Returns (''[N/A], [N/A]'' @ [CHR 0x0A]))\<rparr>"

text \<open>
  An operating system for \<^verbatim>\<open>terminate_process\<close>: pid 4242 can be terminated, pid 1 exists
  and refuses, no other pid exists.
\<close>

definition os_Process :: "int \<Rightarrow> py_exn + int" where
  "os_Process k =
     (if k = 4242 \<or> k = 1 then Inr k
      else Inl (Exn NoSuchProcess ''process PID not found''))"

definition os_terminate :: "int \<Rightarrow> py_exn + unit" where
  "os_terminate h = (if h = 1 then Inl (Exn AccessDenied ''access denied'') else Inr ())"

text \<open>The readings of one \<^verbatim>\<open>get_system_stats\<close> call on the host with the garbled tool.\<close>

definition env_stats :: stats_env where
  "env_stats =
     \<lparr>psutil_cpu_percent = Inr 12,
      psutil_virtual_memory =
        Inr \<lparr>mem_total = 8000, mem_available = 6000, mem_percent = 25, mem_used = 2000\<rparr>,
      psutil_disk_usage =
        (\<lambda>path. Inr \<lparr>disk_total = 500, disk_used = 100, disk_free = 400, disk_percent = 20\<rparr>),
      stats_tool = tool_garbled\<rparr>"

text \<open>Two more caches for pid 100: one whose byte count is ahead, one written at time 1.\<close>

definition cache_reset :: io_cache where
  "cache_reset = [100 \<mapsto> \<lparr>bytes = 5000, time = 0\<rparr>]"

definition cache_now :: io_cache where
  "cache_now = [100 \<mapsto> \<lparr>bytes = 1000, time = 1\<rparr>]"

text \<open>A \<^verbatim>\<open>get_system_stats\<close> call during which the disk reading fails.\<close>

definition env_stats_down :: stats_env where
  "env_stats_down =
     \<lparr>psutil_cpu_percent = Inr 12,
      psutil_virtual_memory =
        Inr \<lparr>mem_total = 8000, mem_available = 6000, mem_percent = 25, mem_used = 2000\<rparr>,
      psutil_disk_usage = (\<lambda>path. Inl (Exn OSError ''No such file or directory'')),
      stats_tool = tool_failing\<rparr>"

text \<open>
  A host whose GPU tool prints nan: for pid 7 in the per-process table, and as the first
  field of the global statistics.
\<close>

definition tool_nan :: gpu_tool where
  "tool_nan = \<lparr>shutil_which = smi_found,
               check_output_hidden = (\<lambda>cmd.
                 if cmd = compute_apps_cmd
                 then Returns (''7, nan'' @ [CHR 0x0A] @ ''9, 45'' @ [CHR 0x0A])
                 else if cmd = gpu_name_cmd then Returns (''Tesla T4'' @ [CHR 0x0A])
                 else if cmd = gpu_query_cmd then Returns (''nan, inf, 500'' @ [CHR 0x0A])
                 else Raises (Exn CalledProcessError ''returned non-zero exit status 2''))\<rparr>"

definition proc_d :: proc_info where
  "proc_d = \<lparr>pid = 9, name = Some ''trainer'', cpu_percent = Some 80, memory_percent = Some 5,
             io_counters = None\<rparr>"

definition env_nan :: sampler_env where
  "env_nan = \<lparr>psutil_cpu_count = Some 4, time_time = 1, nvidia_smi = tool_nan,
              psutil_process_iter = [proc_a, proc_b, proc_d],
              list_sort_nan = keep_order\<rparr>"

section \<open>Properties\<close>

subsection \<open>One iteration and the loop\<close>

lemma sample_proc_fst_cong:
  "c1 (pid p) = c2 (pid p) \<Longrightarrow> fst (sample_proc cc now gm c1 p) = fst (sample_proc cc now gm c2 p)"
  by (simp add: sample_proc_def calc_io_rate_def split: option.splits)

lemma sample_proc_snd_other:
  "k \<noteq> pid p \<Longrightarrow> snd (sample_proc cc now gm c1 p) k = c1 k"
  by (simp add: sample_proc_def calc_io_rate_def split: option.splits)

lemma sample_proc_snd_self:
  "snd (sample_proc cc now gm c1 p) (pid p) =
     (if is_idle p then c1 (pid p)
      else case io_counters p of
             None \<Rightarrow> c1 (pid p)
           | Some c \<Rightarrow> Some \<lparr>bytes = read_bytes c + write_bytes c, time = now\<rparr>)"
  by (simp add: sample_proc_def calc_io_rate_def split: option.splits)

lemma sample_proc_Some:
  "fst (sample_proc cc now gm c1 p) = Some s \<Longrightarrow>
     \<not> is_idle p \<and> pid s = pid p \<and> name s = name p
     \<and> gpu_memory s = (case gm (pid p) of None \<Rightarrow> Fin 0 | Some m \<Rightarrow> m)"
  by (auto simp add: sample_proc_def calc_io_rate_def split: option.splits if_splits)

lemma sample_proc_None:
  "fst (sample_proc cc now gm c1 p) = None \<longleftrightarrow> is_idle p"
  by (simp add: sample_proc_def calc_io_rate_def split: option.splits prod.splits)

lemma loop_Cons_snd:
  "snd (process_loop cc now gm c1 (p # ps)) =
     snd (process_loop cc now gm (snd (sample_proc cc now gm c1 p)) ps)"
  by (simp split: prod.splits)

lemma loop_Cons_fst:
  "fst (process_loop cc now gm c1 (p # ps)) =
     (case fst (sample_proc cc now gm c1 p) of
        None \<Rightarrow> fst (process_loop cc now gm (snd (sample_proc cc now gm c1 p)) ps)
      | Some s \<Rightarrow> s # fst (process_loop cc now gm (snd (sample_proc cc now gm c1 p)) ps))"
  by (auto split: prod.splits option.splits)

declare process_loop.simps(2) [simp del]

lemma loop_snd_other:
  "k \<notin> pid ` set ps \<Longrightarrow> snd (process_loop cc now gm c1 ps) k = c1 k"
proof (induction ps arbitrary: c1)
  case Nil
  show ?case by simp
next
  case (Cons p ps)
  then have ne: "k \<noteq> pid p" and nin: "k \<notin> pid ` set ps" by auto
  show ?case
    by (simp only: loop_Cons_snd Cons.IH [OF nin] sample_proc_snd_other [OF ne])
qed

lemma loop_snd_self:
  "distinct (map pid ps) \<Longrightarrow> p \<in> set ps \<Longrightarrow>
     snd (process_loop cc now gm c1 ps) (pid p) = snd (sample_proc cc now gm c1 p) (pid p)"
proof (induction ps arbitrary: c1)
  case Nil
  then show ?case by simp
next
  case (Cons q ps)
  let ?c2 = "snd (sample_proc cc now gm c1 q)"
  show ?case
  proof (cases "p = q")
    case True
    with Cons.prems have nin: "pid p \<notin> pid ` set ps" by auto
    show ?thesis unfolding True [symmetric] by (simp only: loop_Cons_snd loop_snd_other [OF nin])
  next
    case False
    with Cons.prems have mem: "p \<in> set ps" and d: "distinct (map pid ps)" by auto
    from Cons.prems have "pid q \<notin> pid ` set ps" by simp
    with mem have ne: "pid p \<noteq> pid q" by (metis imageI)
    have same: "?c2 (pid p) = c1 (pid p)" using ne by (simp add: sample_proc_snd_other)
    have "snd (process_loop cc now gm ?c2 ps) (pid p) = snd (sample_proc cc now gm ?c2 p) (pid p)"
      using Cons.IH [OF d mem] .
    also have "\<dots> = snd (sample_proc cc now gm c1 p) (pid p)"
      by (simp only: sample_proc_snd_self same)
    finally show ?thesis by (simp only: loop_Cons_snd)
  qed
qed

lemma loop_mem:
  "distinct (map pid ps) \<Longrightarrow>
     s \<in> set (fst (process_loop cc now gm c1 ps)) \<longleftrightarrow>
     (\<exists>p \<in> set ps. fst (sample_proc cc now gm c1 p) = Some s)"
proof (induction ps arbitrary: c1)
  case Nil
  show ?case by simp
next
  case (Cons q ps)
  let ?c2 = "snd (sample_proc cc now gm c1 q)"
  from Cons.prems have d: "distinct (map pid ps)" and nq: "pid q \<notin> pid ` set ps" by auto
  have same: "\<And>p. p \<in> set ps \<Longrightarrow> fst (sample_proc cc now gm ?c2 p) = fst (sample_proc cc now gm c1 p)"
  proof -
    fix p assume "p \<in> set ps"
    with nq have "pid p \<noteq> pid q" by (metis imageI)
    then have "?c2 (pid p) = c1 (pid p)" by (simp add: sample_proc_snd_other)
    then show "fst (sample_proc cc now gm ?c2 p) = fst (sample_proc cc now gm c1 p)"
      by (rule sample_proc_fst_cong)
  qed
  have rest: "s \<in> set (fst (process_loop cc now gm ?c2 ps)) \<longleftrightarrow>
        (\<exists>p \<in> set ps. fst (sample_proc cc now gm c1 p) = Some s)"
    using Cons.IH [OF d, of ?c2] same by auto
  show ?case
    by (cases "fst (sample_proc cc now gm c1 q)") (auto simp add: loop_Cons_fst rest)
qed

lemma loop_sample:
  "s \<in> set (fst (process_loop cc now gm c1 ps)) \<Longrightarrow>
     \<exists>p \<in> set ps. \<exists>c2. fst (sample_proc cc now gm c2 p) = Some s"
proof (induction ps arbitrary: c1)
  case Nil
  then show ?case by simp
next
  case (Cons q ps)
  then show ?case
    by (cases "fst (sample_proc cc now gm c1 q)") (auto simp add: loop_Cons_fst)
qed

lemma loop_pids:
  "map pid (fst (process_loop cc now gm c1 ps)) = map pid (filter (\<lambda>p. \<not> is_idle p) ps)"
proof (induction ps arbitrary: c1)
  case Nil
  show ?case by simp
next
  case (Cons q ps)
  show ?case
  proof (cases "fst (sample_proc cc now gm c1 q)")
    case None
    then have "is_idle q" by (simp add: sample_proc_None)
    with None show ?thesis by (simp add: loop_Cons_fst Cons.IH)
  next
    case (Some s)
    then have "\<not> is_idle q" and "pid s = pid q" using sample_proc_Some by blast+
    with Some show ?thesis by (simp add: loop_Cons_fst Cons.IH)
  qed
qed


lemma sample_proc_disk_io:
  "fst (sample_proc cc now gm c1 p) = Some s \<Longrightarrow>
     disk_io s =
       (case io_counters p of
          None \<Rightarrow> 0
        | Some c \<Rightarrow> fst (calc_io_rate c1 (pid p) (read_bytes c + write_bytes c) now))"
  by (auto simp add: sample_proc_def split: option.splits if_splits prod.splits)

lemma distinct_pid_eq:
  "distinct (map pid ps) \<Longrightarrow> p \<in> set ps \<Longrightarrow> q \<in> set ps \<Longrightarrow> pid p = pid q \<Longrightarrow> p = q"
  by (meson distinct_map inj_onD)

lemma enumerate_disk_io:
  assumes "distinct (map pid (psutil_process_iter env))"
    and "p \<in> set (psutil_process_iter env)"
    and "s \<in> set (fst (enumerate_processes c1 env))"
    and "pid s = pid p"
  shows "disk_io s =
       (case io_counters p of
          None \<Rightarrow> 0
        | Some c \<Rightarrow> fst (calc_io_rate c1 (pid p) (read_bytes c + write_bytes c) (time_time env)))"
proof -
  from assms(1,3) obtain q cc gm where q: "q \<in> set (psutil_process_iter env)"
    and sq: "fst (sample_proc cc (time_time env) gm c1 q) = Some s"
    unfolding enumerate_processes_def Let_def by (auto simp add: loop_mem)
  from sq have "pid s = pid q" using sample_proc_Some by blast
  with assms have "q = p" using q distinct_pid_eq by metis
  with sq show ?thesis using sample_proc_disk_io by blast
qed

lemma enumerate_pids:
  "pid ` set (fst (enumerate_processes c1 env)) =
     pid ` {p \<in> set (psutil_process_iter env). \<not> is_idle p}"
proof -
  have "set (map pid (fst (enumerate_processes c1 env))) =
        set (map pid (filter (\<lambda>p. \<not> is_idle p) (psutil_process_iter env)))"
    unfolding enumerate_processes_def Let_def by (simp only: loop_pids)
  then show ?thesis by simp
qed

lemma enumerate_length:
  "length (fst (enumerate_processes c1 env)) =
     length (filter (\<lambda>p. \<not> is_idle p) (psutil_process_iter env))"
proof -
  have "length (map pid (fst (enumerate_processes c1 env))) =
        length (map pid (filter (\<lambda>p. \<not> is_idle p) (psutil_process_iter env)))"
    unfolding enumerate_processes_def Let_def by (simp only: loop_pids)
  then show ?thesis by simp
qed

lemma enumerate_cache:
  assumes "distinct (map pid (psutil_process_iter env))"
    and "p \<in> set (psutil_process_iter env)"
    and "\<not> is_idle p"
  shows "snd (enumerate_processes c1 env) (pid p) =
       (case io_counters p of
          None \<Rightarrow> c1 (pid p)
        | Some c \<Rightarrow> Some \<lparr>bytes = read_bytes c + write_bytes c, time = time_time env\<rparr>)"
  unfolding enumerate_processes_def Let_def
  using assms(3) by (simp only: loop_snd_self [OF assms(1,2)] sample_proc_snd_self if_False)

lemma sort_nan_positions:
  assumes "sort js = [0..<length xs]"
  shows "set (map (\<lambda>j. xs ! j) js) = set xs" and "length (map (\<lambda>j. xs ! j) js) = length xs"
proof -
  have "set js = set (sort js)" by simp
  then have js: "set js = {0..<length xs}" by (simp only: assms set_upt)
  have "set (map (\<lambda>j. xs ! j) js) = (\<lambda>j. xs ! j) ` {0..<length xs}" by (simp add: js)
  also have "\<dots> = set xs" by (auto simp add: set_conv_nth)
  finally show "set (map (\<lambda>j. xs ! j) js) = set xs" .
  have "length js = length (sort js)" by simp
  then show "length (map (\<lambda>j. xs ! j) js) = length xs" by (simp add: assms)
qed

lemma sort_reverse_cases:
  "sort_reverse sort_nan f xs = xs
   \<or> sort_reverse sort_nan f xs = rev (sort_key (\<lambda>x. rank (f x)) (rev xs))
   \<or> (sort (sort_nan (map f xs)) = [0..<length xs]
       \<and> sort_reverse sort_nan f xs = map (\<lambda>j. xs ! j) (sort_nan (map f xs)))"
  by (simp add: sort_reverse_def Let_def)

lemma sort_reverse_set: "set (sort_reverse sort_nan f xs) = set xs"
  using sort_reverse_cases [of sort_nan f xs] sort_nan_positions(1) [of "sort_nan (map f xs)" xs]
  by (elim disjE conjE) simp_all

lemma sort_reverse_length: "length (sort_reverse sort_nan f xs) = length xs"
  using sort_reverse_cases [of sort_nan f xs] sort_nan_positions(2) [of "sort_nan (map f xs)" xs]
  by (elim disjE conjE) simp_all

lemma sort_reverse_keep_order:
  assumes "NaN \<in> f ` set xs"
  shows "sort_reverse keep_order f xs = xs"
proof -
  have "sort [0..<length xs] = [0..<length xs]" by (simp add: sorted_sort_id)
  moreover have "map (\<lambda>j. xs ! j) [0..<length xs] = xs" by (rule map_nth)
  ultimately show ?thesis using assms by (simp add: sort_reverse_def keep_order_def)
qed

lemma sort_reverse_sorted:
  assumes "NaN \<notin> f ` set xs"
  shows "sorted_wrt (\<lambda>a b. rank (f b) \<le> rank (f a)) (sort_reverse sort_nan f xs)"
proof -
  have "sorted (map (\<lambda>x. rank (f x)) (sort_key (\<lambda>x. rank (f x)) (rev xs)))"
    by (rule sorted_sort_key)
  then have "sorted_wrt (\<lambda>a b. rank (f a) \<le> rank (f b)) (sort_key (\<lambda>x. rank (f x)) (rev xs))"
    by (simp only: sorted_map)
  then show ?thesis using assms by (simp add: sort_reverse_def sorted_wrt_rev)
qed

lemma rank_le:
  "a \<noteq> NaN \<Longrightarrow> b \<noteq> NaN \<Longrightarrow> rank a \<le> rank b \<longleftrightarrow> pf_le a b"
  by (cases a; cases b) simp_all

lemma get_processes_fst:
  "fst (get_processes c1 env sort_by) =
     take 50 (sort_reverse (list_sort_nan env) (get_or_0 (sort_key_for sort_by))
                (fst (enumerate_processes c1 env)))"
  by (simp add: get_processes_def Let_def split: prod.splits)

lemma get_processes_snd:
  "snd (get_processes c1 env sort_by) =
     snd (enumerate_processes c1 env) |` (pid ` set (fst (enumerate_processes c1 env)))"
  by (simp add: get_processes_def Let_def split: prod.splits)

lemma get_processes_subset:
  "set (fst (get_processes c1 env sort_by)) \<subseteq> set (fst (enumerate_processes c1 env))"
proof -
  have "set (fst (get_processes c1 env sort_by)) \<subseteq>
        set (sort_reverse (list_sort_nan env) (get_or_0 (sort_key_for sort_by))
               (fst (enumerate_processes c1 env)))"
    unfolding get_processes_fst by (rule set_take_subset)
  then show ?thesis by (simp only: sort_reverse_set)
qed

lemma get_processes_all:
  assumes "length (filter (\<lambda>p. \<not> is_idle p) (psutil_process_iter env)) \<le> 50"
  shows "set (fst (get_processes c1 env sort_by)) = set (fst (enumerate_processes c1 env))"
  using assms by (simp add: get_processes_fst sort_reverse_length sort_reverse_set enumerate_length)

lemma get_processes_cache:
  assumes "distinct (map pid (psutil_process_iter env))"
    and "p \<in> set (psutil_process_iter env)"
    and "\<not> is_idle p"
  shows "snd (get_processes c1 env sort_by) (pid p) =
       (case io_counters p of
          None \<Rightarrow> c1 (pid p)
        | Some c \<Rightarrow> Some \<lparr>bytes = read_bytes c + write_bytes c, time = time_time env\<rparr>)"
proof -
  from assms(2,3) have "pid p \<in> pid ` set (fst (enumerate_processes c1 env))"
    unfolding enumerate_pids by blast
  then show ?thesis
    by (simp only: get_processes_snd restrict_in enumerate_cache [OF assms])
qed

lemma get_processes_disk_io:
  assumes "distinct (map pid (psutil_process_iter env))"
    and "p \<in> set (psutil_process_iter env)"
    and "s \<in> set (fst (get_processes c1 env sort_by))"
    and "pid s = pid p"
  shows "disk_io s =
       (case io_counters p of
          None \<Rightarrow> 0
        | Some c \<Rightarrow> fst (calc_io_rate c1 (pid p) (read_bytes c + write_bytes c) (time_time env)))"
  using enumerate_disk_io [OF assms(1,2) _ assms(4)] assms(3) get_processes_subset by blast

lemma calc_io_rate_cached:
  "io_cache k = Some prev \<Longrightarrow>
     calc_io_rate io_cache k total_io now =
       (if time prev < now then real_of_int (total_io - bytes prev) / (now - time prev) else 0,
        io_cache(k \<mapsto> \<lparr>bytes = total_io, time = now\<rparr>))"
  by (simp add: calc_io_rate_def Let_def)

lemma calc_io_rate_new:
  "io_cache k = None \<Longrightarrow>
     calc_io_rate io_cache k total_io now = (0, io_cache(k \<mapsto> \<lparr>bytes = total_io, time = now\<rparr>))"
  by (simp add: calc_io_rate_def Let_def)

lemma enumerate_has:
  assumes "p \<in> set (psutil_process_iter env)" and "\<not> is_idle p"
  shows "\<exists>s \<in> set (fst (enumerate_processes c1 env)). pid s = pid p"
proof -
  from assms have "pid p \<in> pid ` set (fst (enumerate_processes c1 env))"
    unfolding enumerate_pids by blast
  then show ?thesis by force
qed

lemma get_processes_has:
  assumes "p \<in> set (psutil_process_iter env)" and "\<not> is_idle p"
    and "length (filter (\<lambda>q. \<not> is_idle q) (psutil_process_iter env)) \<le> 50"
  shows "\<exists>s \<in> set (fst (get_processes c1 env sort_by)). pid s = pid p"
  using enumerate_has [OF assms(1,2)] by (simp only: get_processes_all [OF assms(3)])

subsection \<open>The rate of a pid that is in the cache\<close>

text \<open>
  Claim C1. A process whose pid is in the rate cache and whose counters are read gets the
  rate (current bytes - cached bytes) / (current time - cached time) when the current
  time is strictly later than the cached one, negative when the byte count went down,
  and 0 when the time difference is zero or negative. In both cases the cache entry of
  the pid becomes the current bytes and time. This holds for the cache step alone and
  for the whole pass; pids are unique within one enumeration.
\<close>

theorem rate_of_cached_pid:
  assumes "distinct (map pid (psutil_process_iter env))"
    and "p \<in> set (psutil_process_iter env)"
    and "\<not> is_idle p"
    and "io_counters p = Some c"
    and "io_cache (pid p) = Some prev"
  shows "(let total_io = read_bytes c + write_bytes c;
              now = time_time env;
              rate = (if time prev < now
                      then real_of_int (total_io - bytes prev) / (now - time prev) else 0);
              entry = \<lparr>bytes = total_io, time = now\<rparr>
          in calc_io_rate io_cache (pid p) total_io now = (rate, io_cache(pid p \<mapsto> entry))
             \<and> (\<exists>s \<in> set (fst (enumerate_processes io_cache env)). pid s = pid p \<and> disk_io s = rate)
             \<and> (\<forall>s \<in> set (fst (get_processes io_cache env sort_by)).
                   pid s = pid p \<longrightarrow> disk_io s = rate)
             \<and> (length (filter (\<lambda>q. \<not> is_idle q) (psutil_process_iter env)) \<le> 50 \<longrightarrow>
                   (\<exists>s \<in> set (fst (get_processes io_cache env sort_by)). pid s = pid p))
             \<and> snd (get_processes io_cache env sort_by) (pid p) = Some entry)"
proof -
  let ?total = "read_bytes c + write_bytes c"
  let ?now = "time_time env"
  let ?rate = "if time prev < ?now then real_of_int (?total - bytes prev) / (?now - time prev) else 0"
  have step: "calc_io_rate io_cache (pid p) ?total ?now =
      (?rate, io_cache(pid p \<mapsto> \<lparr>bytes = ?total, time = ?now\<rparr>))"
    using assms(5) by (rule calc_io_rate_cached)
  have rate: "disk_io s = ?rate" if "s \<in> set (fst (enumerate_processes io_cache env))"
    and "pid s = pid p" for s
    using enumerate_disk_io [OF assms(1,2) that] by (simp add: assms(4) step)
  have ex: "\<exists>s \<in> set (fst (enumerate_processes io_cache env)). pid s = pid p \<and> disk_io s = ?rate"
    using enumerate_has [OF assms(2,3), of io_cache] rate by blast
  have all: "\<forall>s \<in> set (fst (get_processes io_cache env sort_by)). pid s = pid p \<longrightarrow> disk_io s = ?rate"
    using rate get_processes_subset by blast
  have top: "length (filter (\<lambda>q. \<not> is_idle q) (psutil_process_iter env)) \<le> 50 \<longrightarrow>
      (\<exists>s \<in> set (fst (get_processes io_cache env sort_by)). pid s = pid p)"
    using get_processes_has [OF assms(2,3)] by blast
  have cache: "snd (get_processes io_cache env sort_by) (pid p) = Some \<lparr>bytes = ?total, time = ?now\<rparr>"
    by (simp add: get_processes_cache [OF assms(1,2,3)] assms(4))
  show ?thesis
    unfolding Let_def using step ex all top cache by blast
qed

theorem rate_of_cached_pid_witness:
  "distinct (map pid (psutil_process_iter env_a))
   \<and> proc_a \<in> set (psutil_process_iter env_a)
   \<and> \<not> is_idle proc_a
   \<and> io_counters proc_a = Some \<lparr>read_bytes = 1500, write_bytes = 500\<rparr>
   \<and> cache_a (pid proc_a) = Some \<lparr>bytes = 1000, time = 0\<rparr>
   \<and> (\<exists>s \<in> set (fst (get_processes cache_a env_a ''disk'')). pid s = 100 \<and> disk_io s = 1000)
   \<and> snd (get_processes cache_a env_a ''disk'') 100 = Some \<lparr>bytes = 2000, time = 1\<rparr>
   \<and> cache_reset (pid proc_a) = Some \<lparr>bytes = 5000, time = 0\<rparr>
   \<and> (\<exists>s \<in> set (fst (get_processes cache_reset env_a ''disk'')). pid s = 100 \<and> disk_io s = - 3000)
   \<and> snd (get_processes cache_reset env_a ''disk'') 100 = Some \<lparr>bytes = 2000, time = 1\<rparr>
   \<and> cache_now (pid proc_a) = Some \<lparr>bytes = 1000, time = 1\<rparr>
   \<and> (\<exists>s \<in> set (fst (get_processes cache_now env_a ''disk'')). pid s = 100 \<and> disk_io s = 0)
   \<and> snd (get_processes cache_now env_a ''disk'') 100 = Some \<lparr>bytes = 2000, time = 1\<rparr>"
proof -
  have h1: "distinct (map pid (psutil_process_iter env_a))"
    by (simp add: env_a_def proc_a_def proc_b_def proc_idle_def)
  have h2: "proc_a \<in> set (psutil_process_iter env_a)" by (simp add: env_a_def)
  have h3: "\<not> is_idle proc_a" by (simp add: proc_a_def is_idle_def)
  have h4: "io_counters proc_a = Some \<lparr>read_bytes = 1500, write_bytes = 500\<rparr>"
    by (simp add: proc_a_def)
  have h5: "cache_a (pid proc_a) = Some \<lparr>bytes = 1000, time = 0\<rparr>"
    by (simp add: cache_a_def proc_a_def)
  have h6: "cache_reset (pid proc_a) = Some \<lparr>bytes = 5000, time = 0\<rparr>"
    by (simp add: cache_reset_def proc_a_def)
  have h7: "cache_now (pid proc_a) = Some \<lparr>bytes = 1000, time = 1\<rparr>"
    by (simp add: cache_now_def proc_a_def)
  have few: "length (filter (\<lambda>q. \<not> is_idle q) (psutil_process_iter env_a)) \<le> 50"
    by (simp add: env_a_def)
  have vals: "pid proc_a = 100" "time_time env_a = 1" by (simp_all add: env_a_def proc_a_def)
  from rate_of_cached_pid [where env = env_a and p = proc_a and io_cache = cache_a
      and sort_by = "''disk''", OF h1 h2 h3 h4 h5] few
  have a: "(\<exists>s \<in> set (fst (get_processes cache_a env_a ''disk'')). pid s = 100 \<and> disk_io s = 1000)
        \<and> snd (get_processes cache_a env_a ''disk'') 100 = Some \<lparr>bytes = 2000, time = 1\<rparr>"
    unfolding Let_def vals by simp blast
  from rate_of_cached_pid [where env = env_a and p = proc_a and io_cache = cache_reset
      and sort_by = "''disk''", OF h1 h2 h3 h4 h6] few
  have b: "(\<exists>s \<in> set (fst (get_processes cache_reset env_a ''disk'')). pid s = 100 \<and> disk_io s = - 3000)
        \<and> snd (get_processes cache_reset env_a ''disk'') 100 = Some \<lparr>bytes = 2000, time = 1\<rparr>"
    unfolding Let_def vals by simp blast
  from rate_of_cached_pid [where env = env_a and p = proc_a and io_cache = cache_now
      and sort_by = "''disk''", OF h1 h2 h3 h4 h7] few
  have c: "(\<exists>s \<in> set (fst (get_processes cache_now env_a ''disk'')). pid s = 100 \<and> disk_io s = 0)
        \<and> snd (get_processes cache_now env_a ''disk'') 100 = Some \<lparr>bytes = 2000, time = 1\<rparr>"
    unfolding Let_def vals by simp blast
  from h1 h2 h3 h4 h5 h6 h7 a b c show ?thesis by blast
qed

subsection \<open>The first observation of a pid\<close>

text \<open>
  Claim C4. A process whose pid is not in the rate cache and whose counters are read gets
  the rate 0, and afterwards the cache holds an entry for the pid with the cumulative
  bytes read (read plus written) and the time of the pass. This holds for the cache step
  alone and for the whole pass; pids are unique within one enumeration.
\<close>

theorem first_observation_rate_zero:
  assumes "distinct (map pid (psutil_process_iter env))"
    and "p \<in> set (psutil_process_iter env)"
    and "\<not> is_idle p"
    and "io_counters p = Some c"
    and "io_cache (pid p) = None"
  shows "(let total_io = read_bytes c + write_bytes c;
              now = time_time env;
              entry = \<lparr>bytes = total_io, time = now\<rparr>
          in calc_io_rate io_cache (pid p) total_io now = (0, io_cache(pid p \<mapsto> entry))
             \<and> (\<exists>s \<in> set (fst (enumerate_processes io_cache env)). pid s = pid p \<and> disk_io s = 0)
             \<and> (\<forall>s \<in> set (fst (get_processes io_cache env sort_by)).
                   pid s = pid p \<longrightarrow> disk_io s = 0)
             \<and> (length (filter (\<lambda>q. \<not> is_idle q) (psutil_process_iter env)) \<le> 50 \<longrightarrow>
                   (\<exists>s \<in> set (fst (get_processes io_cache env sort_by)). pid s = pid p))
             \<and> snd (get_processes io_cache env sort_by) (pid p) = Some entry)"
proof -
  let ?total = "read_bytes c + write_bytes c"
  let ?now = "time_time env"
  have step: "calc_io_rate io_cache (pid p) ?total ?now =
      (0, io_cache(pid p \<mapsto> \<lparr>bytes = ?total, time = ?now\<rparr>))"
    using assms(5) by (rule calc_io_rate_new)
  have rate: "disk_io s = 0" if "s \<in> set (fst (enumerate_processes io_cache env))"
    and "pid s = pid p" for s
    using enumerate_disk_io [OF assms(1,2) that] by (simp add: assms(4) step)
  have ex: "\<exists>s \<in> set (fst (enumerate_processes io_cache env)). pid s = pid p \<and> disk_io s = 0"
    using enumerate_has [OF assms(2,3), of io_cache] rate by blast
  have all: "\<forall>s \<in> set (fst (get_processes io_cache env sort_by)). pid s = pid p \<longrightarrow> disk_io s = 0"
    using rate get_processes_subset by blast
  have top: "length (filter (\<lambda>q. \<not> is_idle q) (psutil_process_iter env)) \<le> 50 \<longrightarrow>
      (\<exists>s \<in> set (fst (get_processes io_cache env sort_by)). pid s = pid p)"
    using get_processes_has [OF assms(2,3)] by blast
  have cache: "snd (get_processes io_cache env sort_by) (pid p) = Some \<lparr>bytes = ?total, time = ?now\<rparr>"
    by (simp add: get_processes_cache [OF assms(1,2,3)] assms(4))
  show ?thesis
    unfolding Let_def using step ex all top cache by blast
qed

theorem first_observation_rate_zero_witness:
  "distinct (map pid (psutil_process_iter env_a))
   \<and> proc_a \<in> set (psutil_process_iter env_a)
   \<and> \<not> is_idle proc_a
   \<and> io_counters proc_a = Some \<lparr>read_bytes = 1500, write_bytes = 500\<rparr>
   \<and> cache_cold (pid proc_a) = None
   \<and> (\<exists>s \<in> set (fst (get_processes cache_cold env_a ''cpu'')). pid s = 100 \<and> disk_io s = 0)
   \<and> snd (get_processes cache_cold env_a ''cpu'') 100 = Some \<lparr>bytes = 2000, time = 1\<rparr>"
proof -
  have h1: "distinct (map pid (psutil_process_iter env_a))"
    by (simp add: env_a_def proc_a_def proc_b_def proc_idle_def)
  have h2: "proc_a \<in> set (psutil_process_iter env_a)" by (simp add: env_a_def)
  have h3: "\<not> is_idle proc_a" by (simp add: proc_a_def is_idle_def)
  have h4: "io_counters proc_a = Some \<lparr>read_bytes = 1500, write_bytes = 500\<rparr>"
    by (simp add: proc_a_def)
  have h5: "cache_cold (pid proc_a) = None" by (simp add: cache_cold_def proc_a_def)
  have few: "length (filter (\<lambda>q. \<not> is_idle q) (psutil_process_iter env_a)) \<le> 50"
    by (simp add: env_a_def)
  have vals: "pid proc_a = 100" "time_time env_a = 1" by (simp_all add: env_a_def proc_a_def)
  from first_observation_rate_zero [where env = env_a and p = proc_a and io_cache = cache_cold
      and sort_by = "''cpu''", OF h1 h2 h3 h4 h5] few
  have "(\<exists>s \<in> set (fst (get_processes cache_cold env_a ''cpu'')). pid s = 100 \<and> disk_io s = 0)
        \<and> snd (get_processes cache_cold env_a ''cpu'') 100 = Some \<lparr>bytes = 2000, time = 1\<rparr>"
    unfolding Let_def vals by simp blast
  with h1 h2 h3 h4 h5 show ?thesis by blast
qed

subsection \<open>A process whose counters cannot be read\<close>

text \<open>
  Claim C10. A process that is enumerated and kept (it is not the idle entry) and whose
  \<^verbatim>\<open>io_counters\<close> is \<^verbatim>\<open>None\<close> gets the rate 0, and the pass leaves the cache at its pid as
  it was: an entry there is neither refreshed nor removed by the clean-up. A later pass
  that reads counters for the pid therefore computes the rate against that old entry.
  Pids are unique within one enumeration.
\<close>

theorem absent_counters_leave_cache_entry:
  assumes "distinct (map pid (psutil_process_iter env))"
    and "p \<in> set (psutil_process_iter env)"
    and "\<not> is_idle p"
    and "io_counters p = None"
  shows "(\<exists>s \<in> set (fst (enumerate_processes io_cache env)). pid s = pid p \<and> disk_io s = 0)
     \<and> (\<forall>s \<in> set (fst (get_processes io_cache env sort_by)). pid s = pid p \<longrightarrow> disk_io s = 0)
     \<and> (length (filter (\<lambda>q. \<not> is_idle q) (psutil_process_iter env)) \<le> 50 \<longrightarrow>
           (\<exists>s \<in> set (fst (get_processes io_cache env sort_by)). pid s = pid p))
     \<and> snd (get_processes io_cache env sort_by) (pid p) = io_cache (pid p)
     \<and> (distinct (map pid (psutil_process_iter env')) \<and> q \<in> set (psutil_process_iter env')
          \<and> \<not> is_idle q \<and> pid q = pid p \<and> io_counters q = Some c
          \<and> io_cache (pid p) = Some prev \<longrightarrow>
        (\<forall>s \<in> set (fst (get_processes (snd (get_processes io_cache env sort_by)) env' sort_by')).
           pid s = pid p \<longrightarrow>
           disk_io s =
             (if time prev < time_time env'
              then real_of_int (read_bytes c + write_bytes c - bytes prev) / (time_time env' - time prev)
              else 0)))"
proof -
  have rate: "disk_io s = 0" if "s \<in> set (fst (enumerate_processes io_cache env))"
    and "pid s = pid p" for s
    using enumerate_disk_io [OF assms(1,2) that] by (simp add: assms(4))
  have ex: "\<exists>s \<in> set (fst (enumerate_processes io_cache env)). pid s = pid p \<and> disk_io s = 0"
    using enumerate_has [OF assms(2,3), of io_cache] rate by blast
  have all: "\<forall>s \<in> set (fst (get_processes io_cache env sort_by)). pid s = pid p \<longrightarrow> disk_io s = 0"
    using rate get_processes_subset by blast
  have top: "length (filter (\<lambda>q. \<not> is_idle q) (psutil_process_iter env)) \<le> 50 \<longrightarrow>
      (\<exists>s \<in> set (fst (get_processes io_cache env sort_by)). pid s = pid p)"
    using get_processes_has [OF assms(2,3)] by blast
  have cache: "snd (get_processes io_cache env sort_by) (pid p) = io_cache (pid p)"
    by (simp add: get_processes_cache [OF assms(1,2,3)] assms(4))
  have later: "disk_io s =
       (if time prev < time_time env'
        then real_of_int (read_bytes c + write_bytes c - bytes prev) / (time_time env' - time prev)
        else 0)"
    if d: "distinct (map pid (psutil_process_iter env'))" and q: "q \<in> set (psutil_process_iter env')"
      and e: "pid q = pid p" and cq: "io_counters q = Some c" and pr: "io_cache (pid p) = Some prev"
      and s: "s \<in> set (fst (get_processes (snd (get_processes io_cache env sort_by)) env' sort_by'))"
      and sp: "pid s = pid p" for s
  proof -
    have old: "snd (get_processes io_cache env sort_by) (pid q) = Some prev"
      using cache pr e by simp
    from sp e have sq: "pid s = pid q" by simp
    show ?thesis
      using get_processes_disk_io [OF d q s sq] by (simp add: cq calc_io_rate_cached
          [where io_cache = "snd (get_processes io_cache env sort_by)" and k = "pid q", OF old])
  qed
  show ?thesis using ex all top cache later by blast
qed

theorem absent_counters_leave_cache_entry_witness:
  "distinct (map pid (psutil_process_iter env_a))
   \<and> proc_b \<in> set (psutil_process_iter env_a)
   \<and> \<not> is_idle proc_b
   \<and> io_counters proc_b = None
   \<and> distinct (map pid (psutil_process_iter env_b))
   \<and> proc_c \<in> set (psutil_process_iter env_b)
   \<and> \<not> is_idle proc_c
   \<and> pid proc_c = pid proc_b
   \<and> io_counters proc_c = Some \<lparr>read_bytes = 40, write_bytes = 20\<rparr>
   \<and> cache_a (pid proc_b) = Some \<lparr>bytes = 30, time = 0\<rparr>
   \<and> (\<exists>s \<in> set (fst (get_processes cache_a env_a ''cpu'')). pid s = 7 \<and> disk_io s = 0)
   \<and> snd (get_processes cache_a env_a ''cpu'') 7 = Some \<lparr>bytes = 30, time = 0\<rparr>
   \<and> (\<exists>s \<in> set (fst (get_processes (snd (get_processes cache_a env_a ''cpu'')) env_b ''disk'')).
         pid s = 7 \<and> disk_io s = 10)"
proof -
  have h1: "distinct (map pid (psutil_process_iter env_a))"
    by (simp add: env_a_def proc_a_def proc_b_def proc_idle_def)
  have h2: "proc_b \<in> set (psutil_process_iter env_a)" by (simp add: env_a_def)
  have h3: "\<not> is_idle proc_b" by (simp add: proc_b_def is_idle_def)
  have h4: "io_counters proc_b = None" by (simp add: proc_b_def)
  have g1: "distinct (map pid (psutil_process_iter env_b))" by (simp add: env_b_def)
  have g2: "proc_c \<in> set (psutil_process_iter env_b)" by (simp add: env_b_def)
  have g3: "\<not> is_idle proc_c" by (simp add: proc_c_def is_idle_def)
  have g4: "pid proc_c = pid proc_b" by (simp add: proc_c_def proc_b_def)
  have g5: "io_counters proc_c = Some \<lparr>read_bytes = 40, write_bytes = 20\<rparr>"
    by (simp add: proc_c_def)
  have g6: "cache_a (pid proc_b) = Some \<lparr>bytes = 30, time = 0\<rparr>"
    by (simp add: cache_a_def proc_b_def)
  have few: "length (filter (\<lambda>q. \<not> is_idle q) (psutil_process_iter env_a)) \<le> 50"
    by (simp add: env_a_def)
  have vals: "pid proc_b = 7" "time_time env_b = 3" by (simp_all add: env_b_def proc_b_def)
  from absent_counters_leave_cache_entry [where env = env_a and p = proc_b and io_cache = cache_a
      and sort_by = "''cpu''" and env' = env_b and q = proc_c and sort_by' = "''disk''"
      and c = "\<lparr>read_bytes = 40, write_bytes = 20\<rparr>" and prev = "\<lparr>bytes = 30, time = 0\<rparr>",
      OF h1 h2 h3 h4] few g1 g2 g3 g4 g5 g6
  have "(\<exists>s \<in> set (fst (get_processes cache_a env_a ''cpu'')). pid s = 7 \<and> disk_io s = 0)
   \<and> snd (get_processes cache_a env_a ''cpu'') 7 = Some \<lparr>bytes = 30, time = 0\<rparr>
   \<and> (\<forall>s \<in> set (fst (get_processes (snd (get_processes cache_a env_a ''cpu'')) env_b ''disk'')).
         pid s = 7 \<longrightarrow> disk_io s = 10)"
    unfolding vals by simp blast
  moreover have "\<exists>s \<in> set (fst (get_processes (snd (get_processes cache_a env_a ''cpu'')) env_b ''disk'')).
      pid s = 7"
    using get_processes_has [OF g2 g3, of "snd (get_processes cache_a env_a ''cpu'')" "''disk''"]
    by (simp add: env_b_def proc_c_def is_idle_def)
  ultimately have "(\<exists>s \<in> set (fst (get_processes cache_a env_a ''cpu'')). pid s = 7 \<and> disk_io s = 0)
   \<and> snd (get_processes cache_a env_a ''cpu'') 7 = Some \<lparr>bytes = 30, time = 0\<rparr>
   \<and> (\<exists>s \<in> set (fst (get_processes (snd (get_processes cache_a env_a ''cpu'')) env_b ''disk'')).
         pid s = 7 \<and> disk_io s = 10)"
    by blast
  with h1 h2 h3 h4 g1 g2 g3 g4 g5 g6 show ?thesis by blast
qed

subsection \<open>The keys of the cache after a pass\<close>

lemma get_processes_dom:
  "dom (snd (get_processes c1 env sort_by)) \<subseteq> pid ` set (fst (enumerate_processes c1 env))"
  by (simp only: get_processes_snd dom_restrict Int_lower2)

lemma get_processes_length: "length (fst (get_processes c1 env sort_by)) \<le> 50"
  by (simp add: get_processes_fst)

lemma env_51_distinct: "distinct (map pid (psutil_process_iter env_51))"
proof -
  have "map pid (psutil_process_iter env_51) = map int [0..<51]"
    by (simp add: env_51_def worker_def comp_def)
  moreover have "distinct (map int [0..<51])"
    by (simp only: distinct_map distinct_upt inj_on_def) simp
  ultimately show ?thesis by simp
qed

lemma env_51_cached:
  assumes "i < 51"
  shows "int i \<in> dom (snd (get_processes Map.empty env_51 sort_by))"
proof -
  have mem: "worker i \<in> set (psutil_process_iter env_51)"
    using assms by (simp add: env_51_def)
  have live: "\<not> is_idle (worker i)" by (simp add: is_idle_def worker_def)
  have "snd (get_processes Map.empty env_51 sort_by) (int i) = Some \<lparr>bytes = 0, time = 0\<rparr>"
    using get_processes_cache [OF env_51_distinct mem live, of Map.empty sort_by]
    by (simp add: worker_def env_51_def)
  then show ?thesis by (rule domI)
qed

text \<open>
  Claim C3, as stated, fails: with 51 live processes whose counters are read, the pass
  returns 50 entries and the cache keeps 51 keys.
\<close>

theorem cache_keys_exceed_returned_pids:
  "\<not> dom (snd (get_processes Map.empty env_51 ''cpu''))
       \<subseteq> pid ` set (fst (get_processes Map.empty env_51 ''cpu''))"
proof
  let ?keys = "dom (snd (get_processes Map.empty env_51 ''cpu''))"
  let ?res = "fst (get_processes Map.empty env_51 ''cpu'')"
  assume sub: "?keys \<subseteq> pid ` set ?res"
  have "int ` {0..<51} \<subseteq> ?keys"
  proof (rule image_subsetI)
    fix i :: nat assume "i \<in> {0..<51}"
    then show "int i \<in> ?keys" by (simp add: env_51_cached)
  qed
  then have "int ` {0..<51} \<subseteq> pid ` set ?res" using sub by (rule subset_trans)
  then have "card (int ` {0..<51}) \<le> card (pid ` set ?res)"
    by (simp add: card_mono)
  moreover have "card (int ` {0..<51}) = 51"
    by (simp add: card_image inj_on_def)
  moreover have "card (pid ` set ?res) \<le> length ?res"
    by (rule order_trans [OF card_image_le card_length]) simp
  moreover have "length ?res \<le> 50" by (rule get_processes_length)
  ultimately show False by simp
qed

text \<open>
  Claim C3, amended. After a pass the keys of the cache are among the pids of the
  processes the pass sampled, that is of all enumerated processes except the idle entry,
  before the list is cut to 50. When at most 50 processes were sampled, the keys are
  among the pids of the returned list.
\<close>

theorem cache_keys_subset_of_sampled_pids:
  "dom (snd (get_processes io_cache env sort_by)) \<subseteq> pid ` set (fst (enumerate_processes io_cache env))
   \<and> pid ` set (fst (enumerate_processes io_cache env)) =
       pid ` {p \<in> set (psutil_process_iter env). \<not> is_idle p}
   \<and> (length (fst (enumerate_processes io_cache env)) \<le> 50 \<longrightarrow>
        dom (snd (get_processes io_cache env sort_by))
          \<subseteq> pid ` set (fst (get_processes io_cache env sort_by)))"
proof -
  have few: "dom (snd (get_processes io_cache env sort_by))
          \<subseteq> pid ` set (fst (get_processes io_cache env sort_by))"
    if "length (fst (enumerate_processes io_cache env)) \<le> 50"
  proof -
    from that have "length (filter (\<lambda>p. \<not> is_idle p) (psutil_process_iter env)) \<le> 50"
      by (simp only: enumerate_length)
    then have "set (fst (get_processes io_cache env sort_by)) = set (fst (enumerate_processes io_cache env))"
      by (rule get_processes_all)
    then show ?thesis using get_processes_dom [of io_cache env sort_by] by simp
  qed
  show ?thesis using get_processes_dom enumerate_pids few by blast
qed

theorem cache_keys_subset_of_sampled_pids_witness:
  "length (fst (enumerate_processes cache_a env_b)) \<le> 50
   \<and> dom (snd (get_processes cache_a env_b ''cpu'')) \<subseteq> {7}
   \<and> dom (snd (get_processes cache_a env_b ''cpu''))
        \<subseteq> pid ` set (fst (get_processes cache_a env_b ''cpu''))"
proof -
  have len: "length (fst (enumerate_processes cache_a env_b)) \<le> 50"
    by (simp add: enumerate_length env_b_def)
  have pids: "pid ` {p \<in> set (psutil_process_iter env_b). \<not> is_idle p} = {7}"
    by (auto simp add: env_b_def proc_c_def is_idle_def)
  from cache_keys_subset_of_sampled_pids [of cache_a env_b "''cpu''"] len pids
  show ?thesis by simp blast
qed

subsection \<open>The returned list\<close>

lemma parse_45: "py_float '' 45'' = Some (Fin 45)"
  by (simp add: py_float_def c_strip_def is_cspace_def abs_float_value_def ascii_lower_def
      float_number_def not_e_def point_number_def digit_val_def dec_val_def overflow_def)

lemma parse_nan: "py_float '' nan'' = Some NaN"
  by (simp add: py_float_def c_strip_def is_cspace_def abs_float_value_def ascii_lower_def)

lemma gpu_map_tool_nan: "gpu_map tool_nan = [7 \<mapsto> NaN, 9 \<mapsto> Fin 45]"
  by (simp add: gpu_map_def tool_nan_def smi_found_def py_strip_def is_space_def
      gpu_map_line_def parse_45 parse_nan py_int_def c_strip_def is_cspace_def signed_digits_def
      digit_val_def dec_val_def)

lemma enumerate_env_nan:
  "map pid (fst (enumerate_processes Map.empty env_nan)) = [100, 7, 9]"
  "map gpu_memory (fst (enumerate_processes Map.empty env_nan)) = [Fin 0, NaN, Fin 45]"
  by (simp_all add: enumerate_processes_def env_nan_def gpu_map_tool_nan process_loop.simps
      sample_proc_def is_idle_def calc_io_rate_def proc_a_def proc_b_def proc_d_def)

lemma sorted_wrt_related:
  "sorted_wrt P xs \<Longrightarrow> x \<in> set xs \<Longrightarrow> y \<in> set xs \<Longrightarrow> x \<noteq> y \<Longrightarrow> P x y \<or> P y x"
  by (induction xs) auto

lemma pf_le_nan: "\<not> pf_le a NaN" "\<not> pf_le NaN a"
  by (cases a; simp)+

lemma nan_key_never_sorted:
  assumes "x \<in> set xs" and "y \<in> set xs" and "f x = NaN" and "f y \<noteq> NaN"
  shows "\<not> sorted_wrt (\<lambda>a b. pf_le (f b) (f a)) xs"
proof
  assume "sorted_wrt (\<lambda>a b. pf_le (f b) (f a)) xs"
  moreover from assms(3,4) have "x \<noteq> y" by auto
  ultimately have "pf_le (f y) (f x) \<or> pf_le (f x) (f y)"
    using sorted_wrt_related [OF _ assms(1,2)] by blast
  with assms(3) show False by (simp add: pf_le_nan)
qed

lemma enumerate_sort_nan:
  "enumerate_processes c1 (env\<lparr>list_sort_nan := f\<rparr>) = enumerate_processes c1 env"
  by (simp add: enumerate_processes_def)

text \<open>
  With the nan of \<open>env_nan\<close> among the keys, no order in which the sort could leave the
  entries is descending: nan is neither above nor below the number it stands next to.
\<close>

lemma nan_key_unordered_in_any_order:
  "\<not> sorted_wrt (\<lambda>a b. pf_le (gpu_memory b) (gpu_memory a))
       (fst (get_processes Map.empty (env_nan\<lparr>list_sort_nan := f\<rparr>) ''gpu''))"
proof -
  let ?ps = "fst (enumerate_processes Map.empty env_nan)"
  let ?env = "env_nan\<lparr>list_sort_nan := f\<rparr>"
  have few: "length (filter (\<lambda>p. \<not> is_idle p) (psutil_process_iter ?env)) \<le> 50"
    by (simp add: env_nan_def)
  have all: "set (fst (get_processes Map.empty ?env ''gpu'')) = set ?ps"
    by (simp only: get_processes_all [OF few] enumerate_sort_nan)
  have "NaN \<in> set (map gpu_memory ?ps)" and "Fin 45 \<in> set (map gpu_memory ?ps)"
    by (simp_all only: enumerate_env_nan) simp_all
  then obtain x y where "x \<in> set ?ps" and "y \<in> set ?ps"
    and "gpu_memory x = NaN" and "gpu_memory y = Fin 45" by auto
  then have "x \<in> set (fst (get_processes Map.empty ?env ''gpu''))"
    and "y \<in> set (fst (get_processes Map.empty ?env ''gpu''))"
    and "gpu_memory x = NaN" and "gpu_memory y \<noteq> NaN"
    by (simp_all only: all) simp
  then show ?thesis by (rule nan_key_never_sorted)
qed

text \<open>
  Claim C5, as stated, fails. The GPU tool prints nan for pid 7 and 45 for pid 9; pid 100
  has no GPU entry. Sorted by \<^verbatim>\<open>gpu\<close>, the keys are 0, nan, 45 in enumeration order.
  \<^verbatim>\<open>list.sort\<close> reverses the list, asks whether nan < 45 and whether 0 < nan, takes the two
  answers (both false) for an ascending run, and reverses again: the list is returned as
  it was, with 0 before 45.
\<close>

theorem gpu_sort_with_nan_is_unordered:
  "gpu_map (nvidia_smi env_nan) 7 = Some NaN
   \<and> map pid (fst (get_processes Map.empty env_nan ''gpu'')) = [100, 7, 9]
   \<and> map gpu_memory (fst (get_processes Map.empty env_nan ''gpu'')) = [Fin 0, NaN, Fin 45]
   \<and> \<not> pf_le (Fin 45) (Fin 0)
   \<and> \<not> sorted_wrt (\<lambda>a b. pf_le (gpu_memory b) (gpu_memory a))
          (fst (get_processes Map.empty env_nan ''gpu''))"
proof -
  let ?ps = "fst (enumerate_processes Map.empty env_nan)"
  have key: "get_or_0 (sort_key_for ''gpu'') = gpu_memory"
    by (rule ext) (simp add: sort_key_for_def key_map_def get_or_0_def)
  have "NaN \<in> set (map gpu_memory ?ps)" by (simp only: enumerate_env_nan) simp
  then have "NaN \<in> gpu_memory ` set ?ps" by simp
  then have same: "sort_reverse keep_order gpu_memory ?ps = ?ps"
    by (rule sort_reverse_keep_order)
  have "length ?ps = length (map pid ?ps)" by simp
  then have len: "length ?ps = 3" by (simp only: enumerate_env_nan) simp
  have lsn: "list_sort_nan env_nan = keep_order" by (simp add: env_nan_def)
  have "fst (get_processes Map.empty env_nan ''gpu'') = take 50 ?ps"
    by (simp only: get_processes_fst key lsn same)
  then have res: "fst (get_processes Map.empty env_nan ''gpu'') = ?ps"
    by (simp add: len)
  have a: "gpu_map (nvidia_smi env_nan) 7 = Some NaN"
    by (simp add: env_nan_def gpu_map_tool_nan)
  have "\<not> sorted_wrt (\<lambda>a b. pf_le b a) (map gpu_memory ?ps)"
    by (simp only: enumerate_env_nan) simp
  then have b: "\<not> sorted_wrt (\<lambda>a b. pf_le (gpu_memory b) (gpu_memory a)) ?ps"
    by (simp add: sorted_wrt_map)
  have c: "map pid (fst (get_processes Map.empty env_nan ''gpu'')) = [100, 7, 9]"
    and d: "map gpu_memory (fst (get_processes Map.empty env_nan ''gpu'')) = [Fin 0, NaN, Fin 45]"
    by (simp_all only: res enumerate_env_nan)
  have e: "\<not> sorted_wrt (\<lambda>a b. pf_le (gpu_memory b) (gpu_memory a))
          (fst (get_processes Map.empty env_nan ''gpu''))"
    unfolding res by (rule b)
  have g: "\<not> pf_le (Fin 45) (Fin 0)" by simp
  from a c d g e show ?thesis by blast
qed

text \<open>
  Claim C5, amended. The returned list has at most 50 entries. It is in descending order
  of the field the sort key selects, a \<^verbatim>\<open>None\<close> in that field counting as 0:
  \<^verbatim>\<open>cpu_percent\<close> for \<^verbatim>\<open>cpu\<close> and for every unknown key, \<^verbatim>\<open>memory_percent\<close> for \<^verbatim>\<open>memory\<close>,
  \<^verbatim>\<open>disk_io\<close> for \<^verbatim>\<open>disk\<close>; and \<^verbatim>\<open>gpu_memory\<close> for \<^verbatim>\<open>gpu\<close> provided that no sampled
  process has the GPU memory value nan.
\<close>

theorem result_bounded_and_sorted:
  "length (fst (get_processes io_cache env sort_by)) \<le> 50
   \<and> (sort_by \<notin> {''memory'', ''disk'', ''gpu''} \<longrightarrow>
        sorted_wrt (\<lambda>a b. (case cpu_percent b of None \<Rightarrow> 0 | Some v \<Rightarrow> v)
                           \<le> (case cpu_percent a of None \<Rightarrow> 0 | Some v \<Rightarrow> v))
          (fst (get_processes io_cache env sort_by)))
   \<and> (sort_by = ''memory'' \<longrightarrow>
        sorted_wrt (\<lambda>a b. (case memory_percent b of None \<Rightarrow> 0 | Some v \<Rightarrow> v)
                           \<le> (case memory_percent a of None \<Rightarrow> 0 | Some v \<Rightarrow> v))
          (fst (get_processes io_cache env sort_by)))
   \<and> (sort_by = ''disk'' \<longrightarrow>
        sorted_wrt (\<lambda>a b. disk_io b \<le> disk_io a) (fst (get_processes io_cache env sort_by)))
   \<and> (sort_by = ''gpu''
        \<and> (\<forall>s \<in> set (fst (enumerate_processes io_cache env)). gpu_memory s \<noteq> NaN) \<longrightarrow>
        sorted_wrt (\<lambda>a b. pf_le (gpu_memory b) (gpu_memory a))
          (fst (get_processes io_cache env sort_by)))
   \<and> ((\<forall>s \<in> set (fst (enumerate_processes io_cache env)).
          get_or_0 (sort_key_for sort_by) s \<noteq> NaN) \<longrightarrow>
        sorted_wrt (\<lambda>a b. pf_le (get_or_0 (sort_key_for sort_by) b)
                                (get_or_0 (sort_key_for sort_by) a))
          (fst (get_processes io_cache env sort_by)))"
proof -
  let ?res = "fst (get_processes io_cache env sort_by)"
  let ?ps = "fst (enumerate_processes io_cache env)"
  let ?k = "get_or_0 (sort_key_for sort_by)"
  have len: "length ?res \<le> 50" by (rule get_processes_length)
  have sub: "set ?res \<subseteq> set ?ps" by (rule get_processes_subset)
  have srt: "sorted_wrt (\<lambda>a b. pf_le (?k b) (?k a)) ?res" if nn: "\<forall>s \<in> set ?ps. ?k s \<noteq> NaN"
  proof -
    from nn have "NaN \<notin> ?k ` set ?ps" by force
    then have "sorted_wrt (\<lambda>a b. rank (?k b) \<le> rank (?k a)) (sort_reverse (list_sort_nan env) ?k ?ps)"
      by (rule sort_reverse_sorted)
    then have "sorted_wrt (\<lambda>a b. rank (?k b) \<le> rank (?k a)) ?res"
      unfolding get_processes_fst by (rule sorted_wrt_take)
    then show ?thesis
    proof (rule sorted_wrt_mono_rel [rotated])
      fix a b assume "a \<in> set ?res" and "b \<in> set ?res" and le: "rank (?k b) \<le> rank (?k a)"
      with sub nn have "?k a \<noteq> NaN" and "?k b \<noteq> NaN" by blast+
      with le show "pf_le (?k b) (?k a)" by (simp add: rank_le)
    qed
  qed
  have cpu: "sorted_wrt (\<lambda>a b. (case cpu_percent b of None \<Rightarrow> 0 | Some v \<Rightarrow> v)
                           \<le> (case cpu_percent a of None \<Rightarrow> 0 | Some v \<Rightarrow> v)) ?res"
    if "sort_by \<notin> {''memory'', ''disk'', ''gpu''}"
  proof -
    from that have k: "sort_key_for sort_by = Cpu_percent"
      by (auto simp add: sort_key_for_def key_map_def)
    then have "\<forall>s \<in> set ?ps. ?k s \<noteq> NaN" by (simp add: get_or_0_def)
    from srt [OF this] show ?thesis by (simp add: k get_or_0_def)
  qed
  have mem: "sorted_wrt (\<lambda>a b. (case memory_percent b of None \<Rightarrow> 0 | Some v \<Rightarrow> v)
                           \<le> (case memory_percent a of None \<Rightarrow> 0 | Some v \<Rightarrow> v)) ?res"
    if "sort_by = ''memory''"
  proof -
    from that have k: "sort_key_for sort_by = Memory_percent"
      by (simp add: sort_key_for_def key_map_def)
    then have "\<forall>s \<in> set ?ps. ?k s \<noteq> NaN" by (simp add: get_or_0_def)
    from srt [OF this] show ?thesis by (simp add: k get_or_0_def)
  qed
  have dsk: "sorted_wrt (\<lambda>a b. disk_io b \<le> disk_io a) ?res" if "sort_by = ''disk''"
  proof -
    from that have k: "sort_key_for sort_by = Disk_io"
      by (simp add: sort_key_for_def key_map_def)
    then have "\<forall>s \<in> set ?ps. ?k s \<noteq> NaN" by (simp add: get_or_0_def)
    from srt [OF this] show ?thesis by (simp add: k get_or_0_def)
  qed
  have gpu: "sorted_wrt (\<lambda>a b. pf_le (gpu_memory b) (gpu_memory a)) ?res"
    if "sort_by = ''gpu''" and nn: "\<forall>s \<in> set ?ps. gpu_memory s \<noteq> NaN"
  proof -
    from that(1) have k: "sort_key_for sort_by = Gpu_memory"
      by (simp add: sort_key_for_def key_map_def)
    with nn have "\<forall>s \<in> set ?ps. ?k s \<noteq> NaN" by (simp add: get_or_0_def)
    from srt [OF this] show ?thesis by (simp add: k get_or_0_def)
  qed
  show ?thesis using len srt cpu mem dsk gpu by blast
qed

theorem result_bounded_and_sorted_witness:
  "map pid (fst (get_processes cache_a env_a ''disk'')) = [100, 7]
   \<and> map disk_io (fst (get_processes cache_a env_a ''disk'')) = [1000, 0]
   \<and> length (fst (get_processes cache_a env_a ''disk'')) \<le> 50
   \<and> sorted_wrt (\<lambda>a b. disk_io b \<le> disk_io a) (fst (get_processes cache_a env_a ''disk''))
   \<and> map pid (fst (get_processes cache_a env_a ''memory'')) = [100, 7]
   \<and> sorted_wrt (\<lambda>a b. (case memory_percent b of None \<Rightarrow> 0 | Some v \<Rightarrow> v)
                       \<le> (case memory_percent a of None \<Rightarrow> 0 | Some v \<Rightarrow> v))
        (fst (get_processes cache_a env_a ''memory''))
   \<and> map cpu_percent (fst (get_processes cache_a env_a ''top'')) = [Some 10, None]
   \<and> sorted_wrt (\<lambda>a b. (case cpu_percent b of None \<Rightarrow> 0 | Some v \<Rightarrow> v)
                       \<le> (case cpu_percent a of None \<Rightarrow> 0 | Some v \<Rightarrow> v))
        (fst (get_processes cache_a env_a ''top''))
   \<and> map pid (fst (enumerate_processes Map.empty env_gpu)) = [7, 100]
   \<and> map gpu_memory (fst (enumerate_processes Map.empty env_gpu)) = [Fin 0, Fin 45]
   \<and> map pid (fst (get_processes Map.empty env_gpu ''gpu'')) = [100, 7]
   \<and> map gpu_memory (fst (get_processes Map.empty env_gpu ''gpu'')) = [Fin 45, Fin 0]
   \<and> sorted_wrt (\<lambda>a b. pf_le (gpu_memory b) (gpu_memory a))
        (fst (get_processes Map.empty env_gpu ''gpu''))"
proof -
  note run_defs = no_tool_def proc_a_def proc_b_def proc_idle_def env_a_def cache_a_def
        get_processes_def enumerate_processes_def process_loop.simps sample_proc_def
        calc_io_rate_def is_idle_def gpu_map_def sort_reverse_def sort_key_for_def key_map_def
        get_or_0_def
  have run: "map pid (fst (get_processes cache_a env_a ''disk'')) = [100, 7]"
    "map disk_io (fst (get_processes cache_a env_a ''disk'')) = [1000, 0]"
    "map pid (fst (get_processes cache_a env_a ''memory'')) = [100, 7]"
    "map cpu_percent (fst (get_processes cache_a env_a ''top'')) = [Some 10, None]"
    by (simp_all add: run_defs)
  have gm: "gpu_map tool_45 = [100 \<mapsto> Fin 45]"
    by (simp add: gpu_map_def tool_45_def smi_found_def py_strip_def is_space_def
        gpu_map_line_def parse_45 py_int_def c_strip_def is_cspace_def signed_digits_def
        digit_val_def dec_val_def)
  have enum: "map pid (fst (enumerate_processes Map.empty env_gpu)) = [7, 100]"
    "map gpu_memory (fst (enumerate_processes Map.empty env_gpu)) = [Fin 0, Fin 45]"
    by (simp_all add: enumerate_processes_def env_gpu_def gm process_loop.simps sample_proc_def
        is_idle_def calc_io_rate_def proc_a_def proc_b_def)
  have rung: "map pid (fst (get_processes Map.empty env_gpu ''gpu'')) = [100, 7]"
    "map gpu_memory (fst (get_processes Map.empty env_gpu ''gpu'')) = [Fin 45, Fin 0]"
    by (simp_all add: get_processes_def enumerate_processes_def env_gpu_def gm process_loop.simps
        sample_proc_def is_idle_def calc_io_rate_def proc_a_def proc_b_def sort_reverse_def
        sort_key_for_def key_map_def get_or_0_def)
  have "NaN \<notin> set (map gpu_memory (fst (enumerate_processes Map.empty env_gpu)))"
    by (simp only: enum) simp
  then have nn: "\<forall>s \<in> set (fst (enumerate_processes Map.empty env_gpu)). gpu_memory s \<noteq> NaN"
    by force
  have keys: "''top'' \<notin> {''memory'', ''disk'', ''gpu''}" by simp
  from result_bounded_and_sorted [of cache_a env_a "''disk''"]
  have d: "length (fst (get_processes cache_a env_a ''disk'')) \<le> 50"
    "sorted_wrt (\<lambda>a b. disk_io b \<le> disk_io a) (fst (get_processes cache_a env_a ''disk''))"
    by simp_all
  from result_bounded_and_sorted [of cache_a env_a "''memory''"]
  have m: "sorted_wrt (\<lambda>a b. (case memory_percent b of None \<Rightarrow> 0 | Some v \<Rightarrow> v)
                       \<le> (case memory_percent a of None \<Rightarrow> 0 | Some v \<Rightarrow> v))
        (fst (get_processes cache_a env_a ''memory''))"
    by simp
  from result_bounded_and_sorted [of Map.empty env_gpu "''gpu''"] nn
  have g: "sorted_wrt (\<lambda>a b. pf_le (gpu_memory b) (gpu_memory a))
      (fst (get_processes Map.empty env_gpu ''gpu''))"
    by blast
  from result_bounded_and_sorted [of cache_a env_a "''top''"] keys
  have c: "sorted_wrt (\<lambda>a b. (case cpu_percent b of None \<Rightarrow> 0 | Some v \<Rightarrow> v)
                       \<le> (case cpu_percent a of None \<Rightarrow> 0 | Some v \<Rightarrow> v))
        (fst (get_processes cache_a env_a ''top''))"
    by blast
  from run enum rung d m g c show ?thesis by blast
qed

text \<open>
  Claim C7. A sort key outside \<^verbatim>\<open>cpu\<close>, \<^verbatim>\<open>memory\<close>, \<^verbatim>\<open>disk\<close>, \<^verbatim>\<open>gpu\<close> gives the same pass as
  \<^verbatim>\<open>cpu\<close> on the same state: the same entries in the same order, and the same cache.
\<close>

theorem unknown_sort_key_is_cpu:
  assumes "sort_by \<notin> {''cpu'', ''memory'', ''disk'', ''gpu''}"
  shows "get_processes io_cache env sort_by = get_processes io_cache env ''cpu''"
proof -
  from assms have "sort_key_for sort_by = Cpu_percent"
    by (auto simp add: sort_key_for_def key_map_def)
  moreover have "sort_key_for ''cpu'' = Cpu_percent"
    by (simp add: sort_key_for_def key_map_def)
  ultimately show ?thesis by (simp add: get_processes_def)
qed

theorem unknown_sort_key_is_cpu_witness:
  "''nonsense'' \<notin> {''cpu'', ''memory'', ''disk'', ''gpu''}
   \<and> get_processes cache_a env_a ''nonsense'' = get_processes cache_a env_a ''cpu''"
proof -
  have h: "''nonsense'' \<notin> {''cpu'', ''memory'', ''disk'', ''gpu''}" by simp
  from unknown_sort_key_is_cpu [OF h, of cache_a env_a] h show ?thesis by blast
qed

text \<open>
  Claim C8. No entry of the returned list is named \<^verbatim>\<open>System Idle Process\<close> or \<^verbatim>\<open>Idle\<close>,
  whatever CPU value the idle entry reports and whatever the sort key.
\<close>

theorem idle_never_returned:
  "\<forall>s \<in> set (fst (get_processes io_cache env sort_by)).
     name s \<noteq> Some ''System Idle Process'' \<and> name s \<noteq> Some ''Idle''"
proof
  fix s assume "s \<in> set (fst (get_processes io_cache env sort_by))"
  then have "s \<in> set (fst (enumerate_processes io_cache env))"
    using get_processes_subset by blast
  then obtain p cc now gm c2 where "fst (sample_proc cc now gm c2 p) = Some s"
    unfolding enumerate_processes_def Let_def using loop_sample by blast
  then have "\<not> is_idle p" and "name s = name p" using sample_proc_Some by blast+
  then show "name s \<noteq> Some ''System Idle Process'' \<and> name s \<noteq> Some ''Idle''"
    by (simp add: is_idle_def)
qed

theorem idle_never_returned_witness:
  "proc_idle \<in> set (psutil_process_iter env_a)
   \<and> name proc_idle = Some ''System Idle Process''
   \<and> cpu_percent proc_idle = Some 380
   \<and> map pid (fst (get_processes cache_a env_a ''cpu'')) = [100, 7]
   \<and> Some ''System Idle Process'' \<notin> name ` set (fst (get_processes cache_a env_a ''cpu''))
   \<and> Some ''Idle'' \<notin> name ` set (fst (get_processes cache_a env_a ''cpu''))"
proof -
  have run: "map pid (fst (get_processes cache_a env_a ''cpu'')) = [100, 7]"
    by (simp add: no_tool_def proc_a_def proc_b_def proc_idle_def env_a_def cache_a_def
        get_processes_def enumerate_processes_def process_loop.simps sample_proc_def
        calc_io_rate_def is_idle_def gpu_map_def sort_reverse_def sort_key_for_def key_map_def
        get_or_0_def)
  have inp: "proc_idle \<in> set (psutil_process_iter env_a)
      \<and> name proc_idle = Some ''System Idle Process'' \<and> cpu_percent proc_idle = Some 380"
    by (simp add: env_a_def proc_idle_def)
  from idle_never_returned [of cache_a env_a "''cpu''"]
  have "Some ''System Idle Process'' \<notin> name ` set (fst (get_processes cache_a env_a ''cpu''))"
    and "Some ''Idle'' \<notin> name ` set (fst (get_processes cache_a env_a ''cpu''))"
    by force+
  with run inp show ?thesis by blast
qed

subsection \<open>The GPU probes\<close>

lemma gpu_map_line_entry:
  "gpu_map_line gm line = (case gpu_line_entry line of None \<Rightarrow> gm | Some (k, m) \<Rightarrow> gm(k \<mapsto> m))"
  by (simp add: gpu_map_line_def gpu_line_entry_def Let_def split: option.splits)

lemma foldl_gpu_map_line:
  "foldl gpu_map_line gm ls = gm ++ map_of (rev (List.map_filter gpu_line_entry ls))"
proof (induction ls arbitrary: gm)
  case Nil
  show ?case by (simp add: List.map_filter_simps)
next
  case (Cons l ls)
  show ?case
  proof (cases "gpu_line_entry l")
    case None
    then have "gpu_map_line gm l = gm" by (simp add: gpu_map_line_entry)
    with None show ?thesis by (simp add: Cons.IH List.map_filter_simps)
  next
    case (Some e)
    obtain k m where e: "e = (k, m)" by (cases e)
    with Some have step: "gpu_map_line gm l = gm(k \<mapsto> m)" by (simp add: gpu_map_line_entry)
    have "foldl gpu_map_line gm (l # ls) = foldl gpu_map_line (gm(k \<mapsto> m)) ls"
      by (simp add: step)
    also have "\<dots> = gm(k \<mapsto> m) ++ map_of (rev (List.map_filter gpu_line_entry ls))"
      by (rule Cons.IH)
    also have "\<dots> = gm ++ ([k \<mapsto> m] ++ map_of (rev (List.map_filter gpu_line_entry ls)))"
      by (rule ext) (simp add: map_add_def split: option.splits)
    also have "\<dots> = gm ++ map_of (rev (List.map_filter gpu_line_entry (l # ls)))"
      using Some e by (simp add: List.map_filter_simps)
    finally show ?thesis .
  qed
qed

lemma gpu_map_returns:
  assumes "shutil_which tool ''nvidia-smi'' = Some path"
    and "check_output_hidden tool compute_apps_cmd = Returns out"
  shows "gpu_map tool =
     map_of (rev (List.map_filter gpu_line_entry (split_on CHR 0x0A (py_strip out))))"
  using assms by (simp add: gpu_map_def foldl_gpu_map_line)

lemma gpu_map_absent: "shutil_which tool ''nvidia-smi'' = None \<Longrightarrow> gpu_map tool = Map.empty"
  by (simp add: gpu_map_def)

lemma gpu_map_raises:
  "check_output_hidden tool compute_apps_cmd = Raises e \<Longrightarrow> gpu_map tool = Map.empty"
  by (simp add: gpu_map_def split: option.splits)

lemma get_processes_gpu_memory:
  assumes "s \<in> set (fst (get_processes c1 env sort_by))"
  shows "gpu_memory s = (case gpu_map (nvidia_smi env) (pid s) of None \<Rightarrow> Fin 0 | Some m \<Rightarrow> m)"
proof -
  from assms have "s \<in> set (fst (enumerate_processes c1 env))"
    using get_processes_subset by blast
  then obtain p cc now c2 where "fst (sample_proc cc now (gpu_map (nvidia_smi env)) c2 p) = Some s"
    unfolding enumerate_processes_def Let_def using loop_sample by blast
  then have "pid s = pid p"
    and "gpu_memory s = (case gpu_map (nvidia_smi env) (pid p) of None \<Rightarrow> Fin 0 | Some m \<Rightarrow> m)"
    using sample_proc_Some by blast+
  then show ?thesis by simp
qed

lemma floats_None: "x \<in> set xs \<Longrightarrow> py_float x = None \<Longrightarrow> floats xs = None"
  by (induction xs) (auto split: option.splits)

lemma floats_length: "floats xs = Some vs \<Longrightarrow> length vs = length xs"
  by (induction xs arbitrary: vs) (auto split: option.splits)

text \<open>
  Claim C2, as stated, fails: the tool reports 45 (MiB) for pid 100, and the entry of
  pid 100 carries 45, not 45 * 1024 * 1024.
\<close>

theorem gpu_memory_stays_in_megabytes:
  "check_output_hidden (nvidia_smi env_gpu) compute_apps_cmd = Returns (''100, 45'' @ [CHR 0x0A])
   \<and> map pid (fst (get_processes Map.empty env_gpu ''gpu'')) = [100, 7]
   \<and> map gpu_memory (fst (get_processes Map.empty env_gpu ''gpu'')) = [Fin 45, Fin 0]
   \<and> map gpu_memory (fst (get_processes Map.empty env_gpu ''gpu'')) \<noteq> [Fin (45 * 1024 * 1024), Fin 0]"
  by (simp add: env_gpu_def tool_45_def smi_found_def proc_a_def proc_b_def
      get_processes_def enumerate_processes_def process_loop.simps sample_proc_def
      calc_io_rate_def is_idle_def sort_reverse_def sort_key_for_def key_map_def get_or_0_def
      gpu_map_def compute_apps_cmd_def py_strip_def is_space_def gpu_map_line_def
      py_int_def parse_45 c_strip_def is_cspace_def signed_digits_def digit_val_def
      dec_val_def)

text \<open>
  Claim C2, amended. The GPU memory value of every returned entry is the figure the tool
  reported for its pid, in the tool's unit (megabytes), not multiplied: the number
  \<^verbatim>\<open>float\<close> reads from the second field of the last well-formed line whose first field is
  that pid (a number, an infinity or nan, as \<^verbatim>\<open>float\<close> reads it). A pid absent from the map
  gets 0.
\<close>

theorem gpu_memory_is_reported_figure:
  "(\<forall>s \<in> set (fst (get_processes io_cache env sort_by)).
      gpu_memory s = (case gpu_map (nvidia_smi env) (pid s) of None \<Rightarrow> Fin 0 | Some mem_mb \<Rightarrow> mem_mb))
   \<and> (shutil_which tool ''nvidia-smi'' = Some path
        \<and> check_output_hidden tool compute_apps_cmd = Returns out \<longrightarrow>
      gpu_map tool =
        map_of (rev (List.map_filter gpu_line_entry (split_on CHR 0x0A (py_strip out)))))
   \<and> (gpu_line_entry line = Some (k, mem_mb) \<longrightarrow>
        (\<exists>a b. split_on CHR '','' line = [a, b] \<and> py_int a = Some k \<and> py_float b = Some mem_mb))"
proof -
  have entry: "\<exists>a b. split_on CHR '','' line = [a, b] \<and> py_int a = Some k \<and> py_float b = Some mem_mb"
    if "gpu_line_entry line = Some (k, mem_mb)"
  proof -
    from that have len: "length (split_on CHR '','' line) = 2"
      by (simp add: gpu_line_entry_def split: if_splits)
    then obtain a b where ab: "split_on CHR '','' line = [a, b]"
      by (cases "split_on CHR '','' line" rule: list.exhaust)
        (auto simp add: length_Suc_conv Suc_length_conv)
    with that show ?thesis
      by (auto simp add: gpu_line_entry_def split: if_splits option.splits)
  qed
  show ?thesis using get_processes_gpu_memory gpu_map_returns entry by blast
qed

theorem gpu_memory_is_reported_figure_witness:
  "shutil_which tool_45 ''nvidia-smi'' = Some ''/usr/bin/nvidia-smi''
   \<and> check_output_hidden tool_45 compute_apps_cmd = Returns (''100, 45'' @ [CHR 0x0A])
   \<and> gpu_line_entry ''100, 45'' = Some (100, Fin 45)
   \<and> gpu_map tool_45 = map_of [(100, Fin 45)]
   \<and> (\<exists>a b. split_on CHR '','' ''100, 45'' = [a, b] \<and> py_int a = Some 100 \<and> py_float b = Some (Fin 45))
   \<and> (\<exists>s \<in> set (fst (get_processes Map.empty env_gpu ''gpu'')). pid s = 100 \<and> gpu_memory s = Fin 45)
   \<and> (\<exists>s \<in> set (fst (get_processes Map.empty env_gpu ''gpu'')). pid s = 7 \<and> gpu_memory s = Fin 0)"
proof -
  have h1: "shutil_which tool_45 ''nvidia-smi'' = Some ''/usr/bin/nvidia-smi''"
    by (simp add: tool_45_def smi_found_def)
  have h2: "check_output_hidden tool_45 compute_apps_cmd = Returns (''100, 45'' @ [CHR 0x0A])"
    by (simp add: tool_45_def)
  have h3: "gpu_line_entry ''100, 45'' = Some (100, Fin 45)"
    by (simp add: gpu_line_entry_def py_int_def parse_45 c_strip_def is_cspace_def
        signed_digits_def digit_val_def dec_val_def)
  have lines: "split_on CHR 0x0A (py_strip (''100, 45'' @ [CHR 0x0A])) = [''100, 45'']"
    by (simp add: py_strip_def is_space_def)
  note inst = gpu_memory_is_reported_figure [where env = env_gpu and io_cache = Map.empty
      and sort_by = "''gpu''" and tool = tool_45 and path = "''/usr/bin/nvidia-smi''"
      and out = "''100, 45'' @ [CHR 0x0A]" and line = "''100, 45''" and k = 100 and mem_mb = "Fin 45"]
  from inst h1 h2 have "gpu_map tool_45 =
      map_of (rev (List.map_filter gpu_line_entry
        (split_on CHR 0x0A (py_strip (''100, 45'' @ [CHR 0x0A])))))"
    by blast
  then have m: "gpu_map tool_45 = map_of [(100, Fin 45)]"
    unfolding lines by (simp add: List.map_filter_simps h3)
  from inst h3 have f: "\<exists>a b. split_on CHR '','' ''100, 45'' = [a, b] \<and> py_int a = Some 100
      \<and> py_float b = Some (Fin 45)"
    by blast
  have tool: "nvidia_smi env_gpu = tool_45" by (simp add: env_gpu_def)
  have few: "length (filter (\<lambda>q. \<not> is_idle q) (psutil_process_iter env_gpu)) \<le> 50"
    by (simp add: env_gpu_def)
  have pa: "proc_a \<in> set (psutil_process_iter env_gpu)" "\<not> is_idle proc_a" "pid proc_a = 100"
    and pb: "proc_b \<in> set (psutil_process_iter env_gpu)" "\<not> is_idle proc_b" "pid proc_b = 7"
    by (simp_all add: env_gpu_def proc_a_def proc_b_def is_idle_def)
  from get_processes_has [OF pa(1,2) few, of Map.empty "''gpu''"] inst
  have a: "\<exists>s \<in> set (fst (get_processes Map.empty env_gpu ''gpu'')). pid s = 100 \<and> gpu_memory s = Fin 45"
    unfolding tool m pa(3) by force
  from get_processes_has [OF pb(1,2) few, of Map.empty "''gpu''"] inst
  have b: "\<exists>s \<in> set (fst (get_processes Map.empty env_gpu ''gpu'')). pid s = 7 \<and> gpu_memory s = Fin 0"
    unfolding tool m pb(3) by force
  from h1 h2 h3 m f a b show ?thesis by blast
qed

lemma gpu_stats_absent:
  "shutil_which tool ''nvidia-smi'' = None \<Longrightarrow> gpu_stats_of tool = gpu_default"
  by (simp add: gpu_stats_of_def)

lemma gpu_stats_try_Inl:
  "gpu_stats_try tool = Inl e \<Longrightarrow> gpu_stats_of tool = gpu_default"
  by (simp add: gpu_stats_of_def split: option.splits)

lemma gpu_stats_raises:
  assumes "check_output_hidden tool gpu_name_cmd = Raises e
           \<or> check_output_hidden tool gpu_query_cmd = Raises e"
  shows "gpu_stats_of tool = gpu_default"
proof -
  from assms have "\<exists>e'. gpu_stats_try tool = Inl e'"
    by (auto simp add: gpu_stats_try_def split: cmd_result.splits sum.splits)
  then show ?thesis using gpu_stats_try_Inl by blast
qed

lemma gpu_stats_malformed:
  assumes "check_output_hidden tool gpu_query_cmd = Returns out"
    and "first_line out = Inr line"
    and "length (split_on CHR '','' line) < 3
         \<or> (\<exists>x \<in> set (split_on CHR '','' line). py_float x = None)"
  shows "gpu_stats_of tool = gpu_default"
proof -
  have bad: "floats (split_on CHR '','' line) = None
      \<or> (\<exists>vals. floats (split_on CHR '','' line) = Some vals \<and> length vals < 3)"
  proof (cases "floats (split_on CHR '','' line)")
    case None
    then show ?thesis by simp
  next
    case (Some vals)
    with assms(3) floats_None have "length (split_on CHR '','' line) < 3" by fastforce
    with Some show ?thesis using floats_length by fastforce
  qed
  then have "\<exists>e'. gpu_stats_try tool = Inl e'"
    using assms(1,2)
    by (auto simp add: gpu_stats_try_def split: cmd_result.splits sum.splits)
  then show ?thesis using gpu_stats_try_Inl by blast
qed

lemma gpu_stats_wellformed:
  assumes "shutil_which tool ''nvidia-smi'' = Some path"
    and "check_output_hidden tool gpu_name_cmd = Returns name_out"
    and "first_line name_out = Inr nm"
    and "check_output_hidden tool gpu_query_cmd = Returns out"
    and "first_line out = Inr line"
    and "floats (split_on CHR '','' line) = Some vals"
    and "3 \<le> length vals"
  shows "gpu_stats_of tool =
     \<lparr>gpu_percent = vals ! 0, gpu_name = nm,
      gpu_mem_total = times_int (times_int (vals ! 1) 1024) 1024,
      gpu_mem_used = times_int (times_int (vals ! 2) 1024) 1024\<rparr>"
  using assms by (simp add: gpu_stats_of_def gpu_stats_try_def)

lemma gpu_map_line_skip:
  assumes "line = [] \<or> length (split_on CHR '','' line) \<noteq> 2
           \<or> py_int (split_on CHR '','' line ! 0) = None
           \<or> py_float (split_on CHR '','' line ! 1) = None"
  shows "gpu_map_line gm line = gm"
  using assms by (auto simp add: gpu_map_line_def Let_def split: option.splits)

lemma gpu_map_line_keep:
  assumes "split_on CHR '','' line = [a, b]" and "py_int a = Some k" and "py_float b = Some v"
  shows "gpu_line_entry line = Some (k, v)" and "gpu_map_line gm line = gm(k \<mapsto> v)"
proof -
  from assms(1) have "line \<noteq> []" by auto
  with assms show "gpu_line_entry line = Some (k, v)" by (simp add: gpu_line_entry_def)
  then show "gpu_map_line gm line = gm(k \<mapsto> v)" by (simp add: gpu_map_line_entry)
qed

lemma gpu_map_all_skipped:
  assumes "check_output_hidden tool compute_apps_cmd = Returns out"
    and "\<forall>l \<in> set (split_on CHR 0x0A (py_strip out)). gpu_line_entry l = None"
  shows "gpu_map tool = Map.empty"
proof -
  from assms(2) have "List.map_filter gpu_line_entry (split_on CHR 0x0A (py_strip out)) = []"
    by (simp add: List.map_filter_def filter_empty_conv)
  then show ?thesis
    using assms(1) by (simp add: gpu_map_def foldl_gpu_map_line split: option.splits)
qed

lemma parse_na: "py_float '' [N/A]'' = None" "py_float ''[N/A]'' = None"
  by (simp_all add: py_float_def c_strip_def is_cspace_def abs_float_value_def ascii_lower_def
      float_number_def not_e_def point_number_def digit_val_def)

lemma parse_stats_row:
  "floats (split_on CHR '','' ''14, 4096, 500, 7'') = Some [Fin 14, Fin 4096, Fin 500, Fin 7]"
  by (simp add: py_float_def c_strip_def is_cspace_def abs_float_value_def ascii_lower_def
      float_number_def not_e_def point_number_def digit_val_def dec_val_def overflow_def)

lemma parse_nan_row:
  "floats (split_on CHR '','' ''nan, inf, 500'') = Some [NaN, PosInf, Fin 500]"
  by (simp add: py_float_def c_strip_def is_cspace_def abs_float_value_def ascii_lower_def
      float_number_def not_e_def point_number_def digit_val_def dec_val_def overflow_def)

lemma mixed_lines:
  "List.map_filter gpu_line_entry
     (split_on CHR 0x0A
        (py_strip (''100, 45'' @ [CHR 0x0A] @ ''200, [N/A]'' @ [CHR 0x0A] @ ''300'' @ [CHR 0x0A])))
   = [(100, Fin 45)]"
  by (simp add: py_strip_def is_space_def List.map_filter_simps gpu_line_entry_def parse_45
      parse_na py_int_def c_strip_def is_cspace_def signed_digits_def digit_val_def dec_val_def)

text \<open>
  Claim C6, as stated, fails. A per-process output with one good line, one line with a
  field that is not a number and one line with a single column gives a map that is not
  empty; a global output with four columns gives statistics that are not the default.
\<close>

theorem malformed_output_is_partly_used:
  "check_output_hidden tool_mixed compute_apps_cmd
     = Returns (''100, 45'' @ [CHR 0x0A] @ ''200, [N/A]'' @ [CHR 0x0A] @ ''300'' @ [CHR 0x0A])
   \<and> gpu_map tool_mixed 100 = Some (Fin 45)
   \<and> gpu_map tool_mixed \<noteq> Map.empty
   \<and> check_output_hidden tool_mixed gpu_query_cmd = Returns (''14, 4096, 500, 7'' @ [CHR 0x0A])
   \<and> gpu_stats_of tool_mixed =
       \<lparr>gpu_percent = Fin 14, gpu_name = ''Tesla T4'', gpu_mem_total = Fin (4096 * 1024 * 1024),
        gpu_mem_used = Fin (500 * 1024 * 1024)\<rparr>
   \<and> gpu_stats_of tool_mixed \<noteq> gpu_default"
proof -
  have a: "check_output_hidden tool_mixed compute_apps_cmd
     = Returns (''100, 45'' @ [CHR 0x0A] @ ''200, [N/A]'' @ [CHR 0x0A] @ ''300'' @ [CHR 0x0A])"
    by (simp add: tool_mixed_def)
  have w: "shutil_which tool_mixed ''nvidia-smi'' = Some ''/usr/bin/nvidia-smi''"
    by (simp add: tool_mixed_def smi_found_def)
  have "gpu_map tool_mixed = map_of [(100, Fin 45)]"
    by (simp only: gpu_map_returns [OF w a] mixed_lines) simp
  then have b: "gpu_map tool_mixed 100 = Some (Fin 45)" by simp
  then have c: "gpu_map tool_mixed \<noteq> Map.empty" by auto
  have d: "check_output_hidden tool_mixed gpu_query_cmd = Returns (''14, 4096, 500, 7'' @ [CHR 0x0A])"
    by (simp add: tool_mixed_def compute_apps_cmd_def gpu_name_cmd_def gpu_query_cmd_def)
  have n: "check_output_hidden tool_mixed gpu_name_cmd = Returns (''Tesla T4'' @ [CHR 0x0A])"
    by (simp add: tool_mixed_def compute_apps_cmd_def gpu_name_cmd_def)
  have l1: "first_line (''Tesla T4'' @ [CHR 0x0A]) = Inr ''Tesla T4''"
    and l2: "first_line (''14, 4096, 500, 7'' @ [CHR 0x0A]) = Inr ''14, 4096, 500, 7''"
    by (simp_all add: first_line_def py_strip_def is_space_def)
  have e: "gpu_stats_of tool_mixed =
       \<lparr>gpu_percent = Fin 14, gpu_name = ''Tesla T4'', gpu_mem_total = Fin (4096 * 1024 * 1024),
        gpu_mem_used = Fin (500 * 1024 * 1024)\<rparr>"
    using gpu_stats_wellformed [OF w n l1 d l2 parse_stats_row] by (simp add: overflow_def)
  then have f: "gpu_stats_of tool_mixed \<noteq> gpu_default" by (simp add: gpu_default_def)
  from a b c d e f show ?thesis by blast
qed

text \<open>
  Claim C6, amended. When the GPU tool is not on the PATH, or an invocation of it fails,
  the global probe gives the default (percent 0, name N/A, memory used 0 and total 0) and
  the process probe the empty map. When the first line of the global statistics has fewer
  than three fields or a field that \<^verbatim>\<open>float\<close> rejects, the global probe gives the default;
  when it has three fields or more and \<^verbatim>\<open>float\<close> reads them all, the probe gives the first
  three (memory times 1024 * 1024) and the name. In the per-process output a line that is
  empty, has a column count other than two or has a field that \<^verbatim>\<open>int\<close> or \<^verbatim>\<open>float\<close> rejects
  leaves the map as it is, and a line of two fields that both read gives the map its
  entry: the map holds the entries of the well-formed lines, a later line for a pid
  replacing an earlier one, and is empty when there is none. Here \<^verbatim>\<open>nan\<close> and \<^verbatim>\<open>inf\<close> are
  fields that \<^verbatim>\<open>float\<close> reads. No failure of the tool leaves \<^verbatim>\<open>get_system_stats\<close>: it
  returns whenever its three psutil readings succeed, and any exception it raises is one
  of theirs. With an empty map \<^verbatim>\<open>get_processes\<close> reports 0 for every entry.
\<close>

theorem gpu_probe_degrades:
  "(shutil_which tool ''nvidia-smi'' = None \<longrightarrow>
      gpu_stats_of tool = gpu_default \<and> gpu_map tool = Map.empty)
   \<and> (check_output_hidden tool gpu_name_cmd = Raises e
        \<or> check_output_hidden tool gpu_query_cmd = Raises e \<longrightarrow>
      gpu_stats_of tool = gpu_default)
   \<and> (check_output_hidden tool compute_apps_cmd = Raises e \<longrightarrow> gpu_map tool = Map.empty)
   \<and> (check_output_hidden tool gpu_query_cmd = Returns out \<and> first_line out = Inr line
        \<and> (length (split_on CHR '','' line) < 3
            \<or> (\<exists>x \<in> set (split_on CHR '','' line). py_float x = None)) \<longrightarrow>
      gpu_stats_of tool = gpu_default)
   \<and> (shutil_which tool ''nvidia-smi'' = Some path
        \<and> check_output_hidden tool gpu_name_cmd = Returns name_out
        \<and> first_line name_out = Inr nm
        \<and> check_output_hidden tool gpu_query_cmd = Returns out \<and> first_line out = Inr line
        \<and> floats (split_on CHR '','' line) = Some vals \<and> 3 \<le> length vals \<longrightarrow>
      gpu_stats_of tool =
        \<lparr>gpu_percent = vals ! 0, gpu_name = nm,
         gpu_mem_total = times_int (times_int (vals ! 1) 1024) 1024,
         gpu_mem_used = times_int (times_int (vals ! 2) 1024) 1024\<rparr>)
   \<and> (l = [] \<or> length (split_on CHR '','' l) \<noteq> 2
        \<or> py_int (split_on CHR '','' l ! 0) = None
        \<or> py_float (split_on CHR '','' l ! 1) = None \<longrightarrow>
      gpu_map_line gm l = gm \<and> gpu_line_entry l = None)
   \<and> (split_on CHR '','' l = [a, b] \<and> py_int a = Some k \<and> py_float b = Some v \<longrightarrow>
      gpu_map_line gm l = gm(k \<mapsto> v) \<and> gpu_line_entry l = Some (k, v))
   \<and> (shutil_which tool ''nvidia-smi'' = Some path
        \<and> check_output_hidden tool compute_apps_cmd = Returns out' \<longrightarrow>
      gpu_map tool =
        map_of (rev (List.map_filter gpu_line_entry (split_on CHR 0x0A (py_strip out')))))
   \<and> (check_output_hidden tool compute_apps_cmd = Returns out'
        \<and> (\<forall>l \<in> set (split_on CHR 0x0A (py_strip out')). gpu_line_entry l = None) \<longrightarrow>
      gpu_map tool = Map.empty)
   \<and> (psutil_cpu_percent senv = Inr c \<and> psutil_virtual_memory senv = Inr m
        \<and> psutil_disk_usage senv ''/'' = Inr d \<longrightarrow>
      get_system_stats senv =
        Inr \<lparr>cpu = c, memory = m, disk = d, gpu = gpu_stats_of (stats_tool senv)\<rparr>)
   \<and> (get_system_stats senv = Inl x \<longrightarrow>
        psutil_cpu_percent senv = Inl x \<or> psutil_virtual_memory senv = Inl x
        \<or> psutil_disk_usage senv ''/'' = Inl x)
   \<and> (gpu_map (nvidia_smi env) = Map.empty \<longrightarrow>
        (\<forall>s \<in> set (fst (get_processes io_cache env sort_by)). gpu_memory s = Fin 0))"
proof -
  have absent: "shutil_which tool ''nvidia-smi'' = None \<longrightarrow>
      gpu_stats_of tool = gpu_default \<and> gpu_map tool = Map.empty"
    by (simp add: gpu_stats_absent gpu_map_absent)
  have raises: "check_output_hidden tool gpu_name_cmd = Raises e
        \<or> check_output_hidden tool gpu_query_cmd = Raises e \<longrightarrow>
      gpu_stats_of tool = gpu_default"
    by (rule impI) (rule gpu_stats_raises)
  have apps: "check_output_hidden tool compute_apps_cmd = Raises e \<longrightarrow> gpu_map tool = Map.empty"
    by (rule impI) (rule gpu_map_raises)
  have bad: "check_output_hidden tool gpu_query_cmd = Returns out \<and> first_line out = Inr line
        \<and> (length (split_on CHR '','' line) < 3
            \<or> (\<exists>x \<in> set (split_on CHR '','' line). py_float x = None)) \<longrightarrow>
      gpu_stats_of tool = gpu_default"
  proof (rule impI, elim conjE)
    assume "check_output_hidden tool gpu_query_cmd = Returns out" and "first_line out = Inr line"
      and "length (split_on CHR '','' line) < 3
            \<or> (\<exists>x \<in> set (split_on CHR '','' line). py_float x = None)"
    then show "gpu_stats_of tool = gpu_default" by (rule gpu_stats_malformed)
  qed
  have wf: "shutil_which tool ''nvidia-smi'' = Some path
        \<and> check_output_hidden tool gpu_name_cmd = Returns name_out
        \<and> first_line name_out = Inr nm
        \<and> check_output_hidden tool gpu_query_cmd = Returns out \<and> first_line out = Inr line
        \<and> floats (split_on CHR '','' line) = Some vals \<and> 3 \<le> length vals \<longrightarrow>
      gpu_stats_of tool =
        \<lparr>gpu_percent = vals ! 0, gpu_name = nm,
         gpu_mem_total = times_int (times_int (vals ! 1) 1024) 1024,
         gpu_mem_used = times_int (times_int (vals ! 2) 1024) 1024\<rparr>"
  proof (rule impI, elim conjE)
    assume "shutil_which tool ''nvidia-smi'' = Some path"
      and "check_output_hidden tool gpu_name_cmd = Returns name_out"
      and "first_line name_out = Inr nm"
      and "check_output_hidden tool gpu_query_cmd = Returns out" and "first_line out = Inr line"
      and "floats (split_on CHR '','' line) = Some vals" and "3 \<le> length vals"
    then show "gpu_stats_of tool =
        \<lparr>gpu_percent = vals ! 0, gpu_name = nm,
         gpu_mem_total = times_int (times_int (vals ! 1) 1024) 1024,
         gpu_mem_used = times_int (times_int (vals ! 2) 1024) 1024\<rparr>"
      by (rule gpu_stats_wellformed)
  qed
  have skip: "l = [] \<or> length (split_on CHR '','' l) \<noteq> 2
        \<or> py_int (split_on CHR '','' l ! 0) = None
        \<or> py_float (split_on CHR '','' l ! 1) = None \<longrightarrow>
      gpu_map_line gm l = gm \<and> gpu_line_entry l = None"
  proof (rule impI)
    assume h: "l = [] \<or> length (split_on CHR '','' l) \<noteq> 2
        \<or> py_int (split_on CHR '','' l ! 0) = None
        \<or> py_float (split_on CHR '','' l ! 1) = None"
    then have "gpu_map_line gm l = gm" by (rule gpu_map_line_skip)
    moreover from h have "gpu_line_entry l = None"
      by (auto simp add: gpu_line_entry_def split: option.splits)
    ultimately show "gpu_map_line gm l = gm \<and> gpu_line_entry l = None" by (rule conjI)
  qed
  have keep: "split_on CHR '','' l = [a, b] \<and> py_int a = Some k \<and> py_float b = Some v \<longrightarrow>
      gpu_map_line gm l = gm(k \<mapsto> v) \<and> gpu_line_entry l = Some (k, v)"
  proof (rule impI, elim conjE)
    assume h: "split_on CHR '','' l = [a, b]" "py_int a = Some k" "py_float b = Some v"
    from h have "gpu_map_line gm l = gm(k \<mapsto> v)" by (rule gpu_map_line_keep(2))
    moreover from h have "gpu_line_entry l = Some (k, v)" by (rule gpu_map_line_keep(1))
    ultimately show "gpu_map_line gm l = gm(k \<mapsto> v) \<and> gpu_line_entry l = Some (k, v)"
      by (rule conjI)
  qed
  have lines: "shutil_which tool ''nvidia-smi'' = Some path
        \<and> check_output_hidden tool compute_apps_cmd = Returns out' \<longrightarrow>
      gpu_map tool =
        map_of (rev (List.map_filter gpu_line_entry (split_on CHR 0x0A (py_strip out'))))"
  proof (rule impI, elim conjE)
    assume "shutil_which tool ''nvidia-smi'' = Some path"
      and "check_output_hidden tool compute_apps_cmd = Returns out'"
    then show "gpu_map tool =
        map_of (rev (List.map_filter gpu_line_entry (split_on CHR 0x0A (py_strip out'))))"
      by (rule gpu_map_returns)
  qed
  have none: "check_output_hidden tool compute_apps_cmd = Returns out'
        \<and> (\<forall>l \<in> set (split_on CHR 0x0A (py_strip out')). gpu_line_entry l = None) \<longrightarrow>
      gpu_map tool = Map.empty"
  proof (rule impI, elim conjE)
    assume "check_output_hidden tool compute_apps_cmd = Returns out'"
      and "\<forall>l \<in> set (split_on CHR 0x0A (py_strip out')). gpu_line_entry l = None"
    then show "gpu_map tool = Map.empty" by (rule gpu_map_all_skipped)
  qed
  have ok: "psutil_cpu_percent senv = Inr c \<and> psutil_virtual_memory senv = Inr m
        \<and> psutil_disk_usage senv ''/'' = Inr d \<longrightarrow>
      get_system_stats senv =
        Inr \<lparr>cpu = c, memory = m, disk = d, gpu = gpu_stats_of (stats_tool senv)\<rparr>"
    by (simp add: get_system_stats_def)
  have err: "get_system_stats senv = Inl x \<longrightarrow>
        psutil_cpu_percent senv = Inl x \<or> psutil_virtual_memory senv = Inl x
        \<or> psutil_disk_usage senv ''/'' = Inl x"
    by (auto simp add: get_system_stats_def split: sum.splits)
  have zero: "gpu_map (nvidia_smi env) = Map.empty \<longrightarrow>
        (\<forall>s \<in> set (fst (get_processes io_cache env sort_by)). gpu_memory s = Fin 0)"
    using get_processes_gpu_memory [of _ io_cache env sort_by] by simp
  show ?thesis
    apply (intro conjI)
               apply (rule absent)
              apply (rule raises)
             apply (rule apps)
            apply (rule bad)
           apply (rule wf)
          apply (rule skip)
         apply (rule keep)
        apply (rule lines)
       apply (rule none)
      apply (rule ok)
     apply (rule err)
    apply (rule zero)
    done
qed

theorem gpu_probe_degrades_witness:
  "shutil_which no_tool ''nvidia-smi'' = None
   \<and> gpu_stats_of no_tool = gpu_default
   \<and> gpu_map no_tool = Map.empty
   \<and> check_output_hidden tool_failing gpu_name_cmd
        = Raises (Exn CalledProcessError ''returned non-zero exit status 9'')
   \<and> check_output_hidden tool_failing compute_apps_cmd
        = Raises (Exn CalledProcessError ''returned non-zero exit status 9'')
   \<and> gpu_stats_of tool_failing = gpu_default
   \<and> gpu_map tool_failing = Map.empty
   \<and> check_output_hidden tool_garbled gpu_query_cmd = Returns (''[N/A], [N/A]'' @ [CHR 0x0A])
   \<and> first_line (''[N/A], [N/A]'' @ [CHR 0x0A]) = Inr ''[N/A], [N/A]''
   \<and> py_float ''[N/A]'' = None
   \<and> gpu_stats_of tool_garbled = gpu_default
   \<and> gpu_map tool_garbled = Map.empty
   \<and> gpu_map_line [100 \<mapsto> Fin 45] ''300'' = [100 \<mapsto> Fin 45]
   \<and> gpu_map_line Map.empty ''100, 45'' = [100 \<mapsto> Fin 45]
   \<and> gpu_map tool_mixed = map_of [(100, Fin 45)]
   \<and> gpu_stats_of tool_mixed =
        \<lparr>gpu_percent = Fin 14, gpu_name = ''Tesla T4'', gpu_mem_total = Fin (4096 * 1024 * 1024),
         gpu_mem_used = Fin (500 * 1024 * 1024)\<rparr>
   \<and> py_float ''nan'' = Some NaN
   \<and> gpu_stats_of tool_nan =
        \<lparr>gpu_percent = NaN, gpu_name = ''Tesla T4'', gpu_mem_total = PosInf,
         gpu_mem_used = Fin (500 * 1024 * 1024)\<rparr>
   \<and> gpu_map tool_nan = map_of [(9, Fin 45), (7, NaN)]
   \<and> get_system_stats env_stats =
        Inr \<lparr>cpu = 12,
             memory = \<lparr>mem_total = 8000, mem_available = 6000, mem_percent = 25, mem_used = 2000\<rparr>,
             disk = \<lparr>disk_total = 500, disk_used = 100, disk_free = 400, disk_percent = 20\<rparr>,
             gpu = gpu_default\<rparr>
   \<and> get_system_stats env_stats_down = Inl (Exn OSError ''No such file or directory'')
   \<and> psutil_disk_usage env_stats_down ''/'' = Inl (Exn OSError ''No such file or directory'')
   \<and> gpu_map (nvidia_smi env_a) = Map.empty
   \<and> map gpu_memory (fst (get_processes cache_a env_a ''gpu'')) = [Fin 0, Fin 0]"
proof -
  let ?exn = "Exn CalledProcessError ''returned non-zero exit status 9''"
  let ?na = "''[N/A], [N/A]'' @ [CHR 0x0A]"
  let ?path = "''/usr/bin/nvidia-smi''"
  let ?t4 = "''Tesla T4'' @ [CHR 0x0A]"
  let ?apps = "''100, 45'' @ [CHR 0x0A] @ ''200, [N/A]'' @ [CHR 0x0A] @ ''300'' @ [CHR 0x0A]"
  let ?row = "[Fin 14, Fin 4096, Fin 500, Fin 7]"
  let ?nanrow = "[NaN, PosInf, Fin 500]"
  let ?mem = "\<lparr>mem_total = 8000, mem_available = 6000, mem_percent = 25, mem_used = 2000\<rparr>"
  let ?disk = "\<lparr>disk_total = 500, disk_used = 100, disk_free = 400, disk_percent = 20\<rparr>"
  let ?enoent = "Exn OSError ''No such file or directory''"
  note cmds = gpu_name_cmd_def gpu_query_cmd_def compute_apps_cmd_def
  have a1: "shutil_which no_tool ''nvidia-smi'' = None" by (simp add: no_tool_def)
  from gpu_probe_degrades [where tool = no_tool,
      THEN conjunct1] a1
  have a2: "gpu_stats_of no_tool = gpu_default" and a3: "gpu_map no_tool = Map.empty"
    by simp_all
  have b1: "check_output_hidden tool_failing gpu_name_cmd = Raises ?exn"
    and b2: "check_output_hidden tool_failing compute_apps_cmd = Raises ?exn"
    by (simp_all add: tool_failing_def)
  from gpu_probe_degrades [where tool = tool_failing and e = ?exn,
      THEN conjunct2, THEN conjunct1] b1
  have b3: "gpu_stats_of tool_failing = gpu_default" by blast
  from gpu_probe_degrades [where tool = tool_failing and e = ?exn,
      THEN conjunct2, THEN conjunct2, THEN conjunct1] b2
  have b4: "gpu_map tool_failing = Map.empty" by blast
  have c1: "check_output_hidden tool_garbled gpu_query_cmd = Returns ?na"
    and c2: "check_output_hidden tool_garbled compute_apps_cmd = Returns ?na"
    by (simp_all add: tool_garbled_def cmds)
  have c3: "first_line ?na = Inr ''[N/A], [N/A]''"
    by (simp add: first_line_def py_strip_def is_space_def)
  have c4: "py_float ''[N/A]'' = None" by (rule parse_na)
  have c5: "\<exists>x \<in> set (split_on CHR '','' ''[N/A], [N/A]''). py_float x = None"
    using c4 by simp
  have c6: "\<forall>l \<in> set (split_on CHR 0x0A (py_strip ?na)). gpu_line_entry l = None"
    by (simp add: py_strip_def is_space_def gpu_line_entry_def py_int_def c_strip_def
        is_cspace_def signed_digits_def digit_val_def)
  from gpu_probe_degrades [where tool = tool_garbled and out = ?na and line = "''[N/A], [N/A]''",
      THEN conjunct2, THEN conjunct2, THEN conjunct2, THEN conjunct1] c1 c3 c5
  have c7: "gpu_stats_of tool_garbled = gpu_default" by blast
  from gpu_probe_degrades [where tool = tool_garbled and out' = ?na,
      THEN conjunct2, THEN conjunct2, THEN conjunct2, THEN conjunct2,
      THEN conjunct2, THEN conjunct2, THEN conjunct2, THEN conjunct2,
      THEN conjunct1] c2 c6
  have c8: "gpu_map tool_garbled = Map.empty" by blast
  have d1: "length (split_on CHR '','' ''300'') \<noteq> 2" by simp
  from gpu_probe_degrades [where l = "''300''" and gm = "[100 \<mapsto> Fin 45]",
      THEN conjunct2, THEN conjunct2, THEN conjunct2, THEN conjunct2,
      THEN conjunct2, THEN conjunct1] d1
  have d2: "gpu_map_line [100 \<mapsto> Fin 45] ''300'' = [100 \<mapsto> Fin 45]" by blast
  have d3: "split_on CHR '','' ''100, 45'' = [''100'', '' 45'']" by simp
  have d4: "py_int ''100'' = Some 100"
    by (simp add: py_int_def c_strip_def is_cspace_def signed_digits_def digit_val_def dec_val_def)
  from gpu_probe_degrades [where l = "''100, 45''" and gm = Map.empty and a = "''100''"
      and b = "'' 45''" and k = 100 and v = "Fin 45",
      THEN conjunct2, THEN conjunct2, THEN conjunct2, THEN conjunct2,
      THEN conjunct2, THEN conjunct2, THEN conjunct1] d3 d4 parse_45
  have d5: "gpu_map_line Map.empty ''100, 45'' = [100 \<mapsto> Fin 45]" by blast
  have m1: "shutil_which tool_mixed ''nvidia-smi'' = Some ?path"
    by (simp add: tool_mixed_def smi_found_def)
  have m2: "check_output_hidden tool_mixed compute_apps_cmd = Returns ?apps"
    by (simp add: tool_mixed_def)
  have m3: "check_output_hidden tool_mixed gpu_name_cmd = Returns ?t4"
    and m4: "check_output_hidden tool_mixed gpu_query_cmd = Returns (''14, 4096, 500, 7'' @ [CHR 0x0A])"
    by (simp_all add: tool_mixed_def cmds)
  have m5: "first_line ?t4 = Inr ''Tesla T4''"
    and m6: "first_line (''14, 4096, 500, 7'' @ [CHR 0x0A]) = Inr ''14, 4096, 500, 7''"
    and m7: "first_line (''nan, inf, 500'' @ [CHR 0x0A]) = Inr ''nan, inf, 500''"
    by (simp_all add: first_line_def py_strip_def is_space_def)
  from gpu_probe_degrades [where tool = tool_mixed and path = ?path and out' = ?apps,
      THEN conjunct2, THEN conjunct2, THEN conjunct2, THEN conjunct2,
      THEN conjunct2, THEN conjunct2, THEN conjunct2, THEN conjunct1] m1 m2
  have "gpu_map tool_mixed =
      map_of (rev (List.map_filter gpu_line_entry (split_on CHR 0x0A (py_strip ?apps))))"
    by blast
  then have m8: "gpu_map tool_mixed = map_of [(100, Fin 45)]"
    by (simp only: mixed_lines) simp
  have r3: "3 \<le> length ?row" by simp
  from gpu_probe_degrades [where tool = tool_mixed and path = ?path and name_out = ?t4
      and nm = "''Tesla T4''" and out = "''14, 4096, 500, 7'' @ [CHR 0x0A]"
      and line = "''14, 4096, 500, 7''" and vals = ?row,
      THEN conjunct2, THEN conjunct2, THEN conjunct2, THEN conjunct2,
      THEN conjunct1] m1 m3 m4 m5 m6 parse_stats_row r3
  have "gpu_stats_of tool_mixed =
      \<lparr>gpu_percent = ?row ! 0, gpu_name = ''Tesla T4'',
       gpu_mem_total = times_int (times_int (?row ! 1) 1024) 1024,
       gpu_mem_used = times_int (times_int (?row ! 2) 1024) 1024\<rparr>"
    by blast
  then have m9: "gpu_stats_of tool_mixed =
        \<lparr>gpu_percent = Fin 14, gpu_name = ''Tesla T4'', gpu_mem_total = Fin (4096 * 1024 * 1024),
         gpu_mem_used = Fin (500 * 1024 * 1024)\<rparr>"
    by (simp add: overflow_def)
  have n0: "py_float ''nan'' = Some NaN"
    by (simp add: py_float_def c_strip_def is_cspace_def abs_float_value_def ascii_lower_def)
  have n1: "shutil_which tool_nan ''nvidia-smi'' = Some ?path"
    by (simp add: tool_nan_def smi_found_def)
  have n2: "check_output_hidden tool_nan compute_apps_cmd
      = Returns (''7, nan'' @ [CHR 0x0A] @ ''9, 45'' @ [CHR 0x0A])"
    by (simp add: tool_nan_def)
  have n3: "check_output_hidden tool_nan gpu_name_cmd = Returns ?t4"
    and n4: "check_output_hidden tool_nan gpu_query_cmd = Returns (''nan, inf, 500'' @ [CHR 0x0A])"
    by (simp_all add: tool_nan_def cmds)
  have n5: "List.map_filter gpu_line_entry
      (split_on CHR 0x0A (py_strip (''7, nan'' @ [CHR 0x0A] @ ''9, 45'' @ [CHR 0x0A])))
      = [(7, NaN), (9, Fin 45)]"
    by (simp add: py_strip_def is_space_def List.map_filter_simps gpu_line_entry_def parse_45
        parse_nan py_int_def c_strip_def is_cspace_def signed_digits_def digit_val_def dec_val_def)
  from gpu_probe_degrades [where tool = tool_nan and path = ?path
      and out' = "''7, nan'' @ [CHR 0x0A] @ ''9, 45'' @ [CHR 0x0A]",
      THEN conjunct2, THEN conjunct2, THEN conjunct2, THEN conjunct2,
      THEN conjunct2, THEN conjunct2, THEN conjunct2, THEN conjunct1] n1 n2
  have "gpu_map tool_nan = map_of (rev (List.map_filter gpu_line_entry
      (split_on CHR 0x0A (py_strip (''7, nan'' @ [CHR 0x0A] @ ''9, 45'' @ [CHR 0x0A])))))"
    by blast
  then have n6: "gpu_map tool_nan = map_of [(9, Fin 45), (7, NaN)]"
    by (simp only: n5) simp
  have r4: "3 \<le> length ?nanrow" by simp
  from gpu_probe_degrades [where tool = tool_nan and path = ?path and name_out = ?t4
      and nm = "''Tesla T4''" and out = "''nan, inf, 500'' @ [CHR 0x0A]"
      and line = "''nan, inf, 500''" and vals = ?nanrow,
      THEN conjunct2, THEN conjunct2, THEN conjunct2, THEN conjunct2,
      THEN conjunct1] n1 n3 n4 m5 m7 parse_nan_row r4
  have "gpu_stats_of tool_nan =
      \<lparr>gpu_percent = ?nanrow ! 0, gpu_name = ''Tesla T4'',
       gpu_mem_total = times_int (times_int (?nanrow ! 1) 1024) 1024,
       gpu_mem_used = times_int (times_int (?nanrow ! 2) 1024) 1024\<rparr>"
    by blast
  then have n7: "gpu_stats_of tool_nan =
        \<lparr>gpu_percent = NaN, gpu_name = ''Tesla T4'', gpu_mem_total = PosInf,
         gpu_mem_used = Fin (500 * 1024 * 1024)\<rparr>"
    by (simp add: overflow_def)
  have e1: "psutil_cpu_percent env_stats = Inr 12"
    and e2: "psutil_virtual_memory env_stats = Inr ?mem"
    and e3: "psutil_disk_usage env_stats ''/'' = Inr ?disk"
    and e4: "stats_tool env_stats = tool_garbled"
    by (simp_all add: env_stats_def)
  from gpu_probe_degrades [where senv = env_stats and c = 12 and m = ?mem and d = ?disk,
      THEN conjunct2, THEN conjunct2, THEN conjunct2, THEN conjunct2,
      THEN conjunct2, THEN conjunct2, THEN conjunct2, THEN conjunct2,
      THEN conjunct2, THEN conjunct1] e1 e2 e3
  have "get_system_stats env_stats =
        Inr \<lparr>cpu = 12, memory = ?mem, disk = ?disk, gpu = gpu_stats_of (stats_tool env_stats)\<rparr>"
    by blast
  then have e5: "get_system_stats env_stats =
        Inr \<lparr>cpu = 12, memory = ?mem, disk = ?disk, gpu = gpu_default\<rparr>"
    by (simp only: e4 c7)
  have f1: "get_system_stats env_stats_down = Inl ?enoent"
    by (simp add: get_system_stats_def env_stats_down_def)
  have f2: "psutil_cpu_percent env_stats_down \<noteq> Inl ?enoent"
    and f3: "psutil_virtual_memory env_stats_down \<noteq> Inl ?enoent"
    by (simp_all add: env_stats_down_def)
  from gpu_probe_degrades [where senv = env_stats_down and x = ?enoent,
      THEN conjunct2, THEN conjunct2, THEN conjunct2, THEN conjunct2,
      THEN conjunct2, THEN conjunct2, THEN conjunct2, THEN conjunct2,
      THEN conjunct2, THEN conjunct2, THEN conjunct1] f1 f2 f3
  have f4: "psutil_disk_usage env_stats_down ''/'' = Inl ?enoent"
    by blast
  have g1: "gpu_map (nvidia_smi env_a) = Map.empty"
    by (simp add: gpu_map_def env_a_def no_tool_def)
  have g2: "length (fst (get_processes cache_a env_a ''gpu'')) = 2"
    by (simp add: no_tool_def proc_a_def proc_b_def proc_idle_def env_a_def cache_a_def
        get_processes_def enumerate_processes_def process_loop.simps sample_proc_def
        calc_io_rate_def is_idle_def gpu_map_def sort_reverse_def sort_key_for_def key_map_def
        get_or_0_def)
  from gpu_probe_degrades [where env = env_a and io_cache = cache_a and sort_by = "''gpu''",
      THEN conjunct2, THEN conjunct2, THEN conjunct2, THEN conjunct2,
      THEN conjunct2, THEN conjunct2, THEN conjunct2, THEN conjunct2,
      THEN conjunct2, THEN conjunct2, THEN conjunct2] g1
  have "\<forall>s \<in> set (fst (get_processes cache_a env_a ''gpu'')). gpu_memory s = Fin 0"
    by blast
  then have "map gpu_memory (fst (get_processes cache_a env_a ''gpu''))
      = replicate (length (fst (get_processes cache_a env_a ''gpu''))) (Fin 0)"
    by (simp add: map_replicate_const [symmetric] cong: map_cong)
  then have g3: "map gpu_memory (fst (get_processes cache_a env_a ''gpu'')) = [Fin 0, Fin 0]"
    by (simp add: g2 numeral_2_eq_2)
  from a1 a2 a3 b1 b2 b3 b4 c1 c3 c4 c7 c8 d2 d5 m8 m9 n0 n6 n7 e5 f1 f4 g1 g3
  show ?thesis by blast
qed

subsection \<open>\<^verbatim>\<open>terminate_process\<close>\<close>

text \<open>
  Claim C9. For every pid \<^verbatim>\<open>terminate_process\<close> returns a result with a success flag and a
  message and raises nothing: success with the message naming the pid when the process is
  found and terminated, failure with the text of the exception when the pid does not
  exist or the termination is refused.
\<close>

theorem terminate_process_structured:
  "(\<exists>r. terminate_process psutil_Process terminate k = Inr r)
   \<and> (psutil_Process k = Inr h \<and> terminate h = Inr () \<longrightarrow>
        terminate_process psutil_Process terminate k =
          Inr \<lparr>success = True, message = ''Process '' @ str_int k @ '' terminated.''\<rparr>)
   \<and> (psutil_Process k = Inl e \<longrightarrow>
        terminate_process psutil_Process terminate k =
          Inr \<lparr>success = False, message = exn_str e\<rparr>)
   \<and> (psutil_Process k = Inr h \<and> terminate h = Inl e \<longrightarrow>
        terminate_process psutil_Process terminate k =
          Inr \<lparr>success = False, message = exn_str e\<rparr>)"
  by (auto simp add: terminate_process_def terminate_try_def split: sum.splits)

theorem terminate_process_structured_witness:
  "os_Process 4242 = Inr 4242 \<and> os_terminate 4242 = Inr ()
   \<and> terminate_process os_Process os_terminate 4242 =
        Inr \<lparr>success = True, message = ''Process 4242 terminated.''\<rparr>
   \<and> os_Process 99 = Inl (Exn NoSuchProcess ''process PID not found'')
   \<and> terminate_process os_Process os_terminate 99 =
        Inr \<lparr>success = False, message = ''process PID not found''\<rparr>
   \<and> os_Process 1 = Inr 1 \<and> os_terminate 1 = Inl (Exn AccessDenied ''access denied'')
   \<and> terminate_process os_Process os_terminate 1 =
        Inr \<lparr>success = False, message = ''access denied''\<rparr>"
proof -
  have a: "os_Process 4242 = Inr 4242" "os_terminate 4242 = Inr ()"
    by (simp_all add: os_Process_def os_terminate_def)
  have b: "os_Process 99 = Inl (Exn NoSuchProcess ''process PID not found'')"
    by (simp add: os_Process_def)
  have c: "os_Process 1 = Inr 1" "os_terminate 1 = Inl (Exn AccessDenied ''access denied'')"
    by (simp_all add: os_Process_def os_terminate_def)
  have str: "str_int 4242 = ''4242''" by (simp add: str_int_def)
  from terminate_process_structured [where psutil_Process = os_Process
      and terminate = os_terminate and k = 4242 and h = 4242] a
  have a': "terminate_process os_Process os_terminate 4242 =
        Inr \<lparr>success = True, message = ''Process 4242 terminated.''\<rparr>"
    by (simp add: str)
  from terminate_process_structured [where psutil_Process = os_Process
      and terminate = os_terminate and k = 99
      and e = "Exn NoSuchProcess ''process PID not found''"] b
  have b': "terminate_process os_Process os_terminate 99 =
        Inr \<lparr>success = False, message = ''process PID not found''\<rparr>"
    by simp
  from terminate_process_structured [where psutil_Process = os_Process
      and terminate = os_terminate and k = 1 and h = 1
      and e = "Exn AccessDenied ''access denied''"] c
  have c': "terminate_process os_Process os_terminate 1 =
        Inr \<lparr>success = False, message = ''access denied''\<rparr>"
    by simp
  from a b c a' b' c' show ?thesis by blast
qed

end
